theory Spec2Isabelle
  imports Main
begin

section \<open>Python values, exceptions and the runtime\<close>

text \<open>
  The extractor of \<^verbatim>\<open>phospho-python/phospho/extractor.py\<close> inspects dynamically typed
  values. A value is one of the shapes the code tests for with \<^verbatim>\<open>isinstance\<close>: the JSON
  scalars, \<^verbatim>\<open>str\<close>, \<^verbatim>\<open>bytes\<close>, \<^verbatim>\<open>list\<close>, \<^verbatim>\<open>dict\<close> (string keys, in insertion order),
  a \<^verbatim>\<open>pydantic.BaseModel\<close> (class name and fields) and a plain object of any other class
  (class name and attributes; it is not iterable). Python's \<^verbatim>\<open>None\<close> is \<open>PNone\<close>.
\<close>

datatype pyval =
    PNone
  | PBool bool
  | PInt int
  | PStr string
  | PBytes string
  | PList "pyval list"
  | PDict "(string \<times> pyval) list"
  | PModel string "(string \<times> pyval) list"
  | PObj string "(string \<times> pyval) list"

text \<open>
  Every \<^verbatim>\<open>raise\<close> of the code, and every exception the interpreter raises in it, is a
  value. \<open>JSONDecodeError\<close> is the spec's ParseError, \<open>NotImplementedError\<close> its
  UnsupportedTypeError and UnsupportedModeError, \<open>AttributeError\<close> (a failed
  \<^verbatim>\<open>getattr\<close> on the job library) its UnknownJobError. \<open>Raised\<close> is any other
  exception, by name, that a user-supplied function raises.
\<close>

datatype error =
    JSONDecodeError
  | UnicodeDecodeError
  | ValueError
  | NotImplementedError
  | AttributeError
  | TypeError
  | KeyError
  | AssertionError
  | Raised string

text \<open>What the builtin \<^verbatim>\<open>dict(x)\<close> does: the items of the new dict, or one of the two
  exceptions \<^verbatim>\<open>convert_to_dict\<close> catches.\<close>

datatype dict_result =
    DictItems "(string \<times> pyval) list"
  | DictValueError
  | DictTypeError

text \<open>
  The parts of the Python runtime the code calls and this development does not
  define are parameters: \<^verbatim>\<open>json.loads\<close> (\<open>None\<close> when it raises JSONDecodeError),
  \<^verbatim>\<open>bytes.decode\<close> (\<open>None\<close> when it raises UnicodeDecodeError), \<^verbatim>\<open>str\<close> on a
  value that is not already a \<^verbatim>\<open>str\<close>, and \<^verbatim>\<open>dict\<close> on a list.
\<close>

record runtime =
  json_loads :: "string \<Rightarrow> pyval option"
  bytes_decode :: "string \<Rightarrow> string option"
  str_of :: "pyval \<Rightarrow> string"
  dict_of_list :: "pyval list \<Rightarrow> dict_result"

definition py_str :: "runtime \<Rightarrow> pyval \<Rightarrow> pyval" where
  \<comment> \<open>\<^verbatim>\<open>str(x)\<close>: a \<^verbatim>\<open>str\<close> is returned as it is.\<close>
  "py_str rt x = (case x of PStr s \<Rightarrow> PStr s | _ \<Rightarrow> PStr (str_of rt x))"

definition method_get :: "pyval \<Rightarrow> string \<Rightarrow> pyval \<Rightarrow> error + pyval" where
  \<comment> \<open>\<^verbatim>\<open>x.get(key, default)\<close>: only a dict has the method.\<close>
  "method_get x key dflt =
     (case x of
        PDict d \<Rightarrow> Inr (case map_of d key of Some v \<Rightarrow> v | None \<Rightarrow> dflt)
      | _ \<Rightarrow> Inl AttributeError)"

definition getattr :: "pyval \<Rightarrow> string \<Rightarrow> pyval option" where
  \<comment> \<open>The attribute \<open>name\<close> of \<open>x\<close>, for the names the code reads (\<^verbatim>\<open>choices\<close>,
      \<^verbatim>\<open>message\<close>, \<^verbatim>\<open>content\<close>, \<^verbatim>\<open>delta\<close>): no builtin type has one of them.\<close>
  "getattr x name =
     (case x of
        PModel c fs \<Rightarrow> map_of fs name
      | PObj c fs \<Rightarrow> map_of fs name
      | _ \<Rightarrow> None)"

definition getattr_default :: "pyval \<Rightarrow> string \<Rightarrow> pyval \<Rightarrow> pyval" where
  \<comment> \<open>\<^verbatim>\<open>getattr(x, name, default)\<close>\<close>
  "getattr_default x name dflt = (case getattr x name of Some v \<Rightarrow> v | None \<Rightarrow> dflt)"

definition class_name :: "pyval \<Rightarrow> string" where
  \<comment> \<open>\<^verbatim>\<open>x.__class__.__name__\<close>\<close>
  "class_name x =
     (case x of
        PNone \<Rightarrow> ''NoneType'' | PBool b \<Rightarrow> ''bool'' | PInt i \<Rightarrow> ''int''
      | PStr s \<Rightarrow> ''str'' | PBytes b \<Rightarrow> ''bytes'' | PList xs \<Rightarrow> ''list''
      | PDict d \<Rightarrow> ''dict'' | PModel c fs \<Rightarrow> c | PObj c fs \<Rightarrow> c)"

fun contains_sub :: "string \<Rightarrow> string \<Rightarrow> bool" where
  "contains_sub k [] = (k = [])"
| "contains_sub k (c # cs) = (take (length k) (c # cs) = k \<or> contains_sub k cs)"

definition py_contains :: "string \<Rightarrow> pyval \<Rightarrow> error + bool" where
  \<comment> \<open>\<^verbatim>\<open>key in x\<close> for a string \<open>key\<close>: a key of a dict, a substring of a str, an
      element of a list; a model is iterated as (name, value) pairs, none of which
      equals a string; the other values are not iterable.\<close>
  "py_contains key x =
     (case x of
        PDict d \<Rightarrow> Inr (map_of d key \<noteq> None)
      | PStr s \<Rightarrow> Inr (contains_sub key s)
      | PList xs \<Rightarrow> Inr (PStr key \<in> set xs)
      | PModel c fs \<Rightarrow> Inr False
      | _ \<Rightarrow> Inl TypeError)"

fun dump :: "pyval \<Rightarrow> pyval" where
  "dump (PModel c fs) = PDict (map (\<lambda>(k, v). (k, dump v)) fs)"
| "dump (PDict d) = PDict (map (\<lambda>(k, v). (k, dump v)) d)"
| "dump (PList xs) = PList (map dump xs)"
| "dump x = x"

definition model_dump :: "pyval \<Rightarrow> pyval" where
  \<comment> \<open>pydantic's \<^verbatim>\<open>x.model_dump()\<close>: the fields as a dict, nested models dumped too.\<close>
  "model_dump x = dump x"

definition py_dict :: "runtime \<Rightarrow> pyval \<Rightarrow> dict_result" where
  \<comment> \<open>\<^verbatim>\<open>dict(x)\<close> where \<open>x\<close> is no dict, model, str or bytes: a scalar and a plain
      object are not iterable.\<close>
  "py_dict rt x = (case x of PList xs \<Rightarrow> dict_of_list rt xs | _ \<Rightarrow> DictTypeError)"

section \<open>The normalizer (extractor.py)\<close>

definition convert_to_dict :: "runtime \<Rightarrow> pyval \<Rightarrow> error + pyval" where
  "convert_to_dict rt x =
     (case x of
        PDict d \<Rightarrow> Inr x
      | PModel c fs \<Rightarrow> Inr (model_dump x)
      | PStr s \<Rightarrow>
          (case json_loads rt s of None \<Rightarrow> Inl JSONDecodeError | Some v \<Rightarrow> Inr v)
      | PBytes b \<Rightarrow>
          (case bytes_decode rt b of
             None \<Rightarrow> Inl UnicodeDecodeError
           | Some s \<Rightarrow>
               (case json_loads rt s of None \<Rightarrow> Inl JSONDecodeError | Some v \<Rightarrow> Inr v))
      | _ \<Rightarrow>
          (case py_dict rt x of
             DictItems kvs \<Rightarrow> Inr (PDict kvs)
           | DictValueError \<Rightarrow> Inl ValueError
           | DictTypeError \<Rightarrow> Inl NotImplementedError))"

definition detect_str_from_input :: "runtime \<Rightarrow> pyval \<Rightarrow> error + pyval" where
  "detect_str_from_input rt input =
     (case input of
        PDict d \<Rightarrow>
          (case map_of d ''messages'' of
             Some (PList msgs) \<Rightarrow>
               if length msgs > 0 then
                 (case py_contains ''content'' (last msgs) of
                    Inl e \<Rightarrow> Inl e
                  | Inr False \<Rightarrow> Inr (py_str rt input)
                  | Inr True \<Rightarrow>
                      (case method_get (last msgs) ''content'' PNone of
                         Inl e \<Rightarrow> Inl e
                       | Inr PNone \<Rightarrow> Inr (py_str rt input)
                       | Inr content \<Rightarrow> Inr (py_str rt content)))
               else Inr (py_str rt input)
           | _ \<Rightarrow> Inr (py_str rt input))
      | _ \<Rightarrow> Inr (py_str rt input))"

text \<open>
  \<^verbatim>\<open>detect_str_from_output\<close> is a cascade of \<^verbatim>\<open>if\<close> blocks, each of which returns,
  raises or falls through to the next. A block is a function to
  \<open>(error + pyval) option\<close>: \<open>Some (Inr v)\<close> returns \<open>v\<close>, \<open>Some (Inl e)\<close> raises \<open>e\<close>,
  \<open>None\<close> falls through. The calls to the logger have no effect on the result and
  are left out.
\<close>

definition bytes_to_dict :: "runtime \<Rightarrow> pyval \<Rightarrow> pyval" where
  \<comment> \<open>The first block: bytes are replaced by their JSON value when they have one.\<close>
  "bytes_to_dict rt output =
     (case output of
        PBytes b \<Rightarrow> (case convert_to_dict rt output of Inl e \<Rightarrow> output | Inr d \<Rightarrow> d)
      | _ \<Rightarrow> output)"

definition openai_model_output :: "runtime \<Rightarrow> string \<Rightarrow> pyval \<Rightarrow> (error + pyval) option" where
  \<comment> \<open>The second block: a pydantic model named ChatCompletion or ChatCompletionChunk.\<close>
  "openai_model_output rt output_class_name output =
     (case output of
        PModel c fs \<Rightarrow>
          if output_class_name \<in> set [''ChatCompletion'', ''ChatCompletionChunk''] then
            (case getattr_default output ''choices'' PNone of
               PList (choice # rest) \<Rightarrow>
                 if output_class_name = ''ChatCompletion'' then
                   (case getattr_default (getattr_default choice ''message'' PNone) ''content'' PNone of
                      PNone \<Rightarrow> None
                    | content \<Rightarrow> Some (Inr (py_str rt content)))
                 else
                   (case getattr choice ''delta'' of
                      None \<Rightarrow> Some (Inl AttributeError)
                    | Some choice_delta \<Rightarrow>
                        (case getattr_default choice_delta ''content'' PNone of
                           PNone \<Rightarrow> Some (Inr (PStr []))
                         | content \<Rightarrow> Some (Inr (py_str rt content))))
             | _ \<Rightarrow> None)
          else None
      | _ \<Rightarrow> None)"

definition openai_dict_output :: "runtime \<Rightarrow> (string \<times> pyval) list \<Rightarrow> (error + pyval) option" where
  \<comment> \<open>The third block, first half: a dict with a non-empty list under \<^verbatim>\<open>choices\<close>.\<close>
  "openai_dict_output rt d =
     (case map_of d ''choices'' of
        Some (PList (choice # rest)) \<Rightarrow>
          (case method_get choice ''message'' PNone of
             Inl e \<Rightarrow> Some (Inl e)
           | Inr PNone \<Rightarrow>
               (case method_get choice ''delta'' (PDict []) of
                  Inl e \<Rightarrow> Some (Inl e)
                | Inr choice_delta \<Rightarrow>
                    (case method_get choice_delta ''content'' PNone of
                       Inl e \<Rightarrow> Some (Inl e)
                     | Inr PNone \<Rightarrow> Some (Inr (PStr []))
                     | Inr content \<Rightarrow> Some (Inr (py_str rt content))))
           | Inr message \<Rightarrow>
               (case method_get message ''content'' PNone of
                  Inl e \<Rightarrow> Some (Inl e)
                | Inr PNone \<Rightarrow> None
                | Inr content \<Rightarrow> Some (Inr (py_str rt content))))
      | _ \<Rightarrow> None)"

definition dict_output :: "runtime \<Rightarrow> pyval \<Rightarrow> (error + pyval) option" where
  \<comment> \<open>The third block: OpenAI's \<^verbatim>\<open>choices\<close>, then Ollama's \<^verbatim>\<open>response\<close>, which is
      returned as it is.\<close>
  "dict_output rt output =
     (case output of
        PDict d \<Rightarrow>
          (case openai_dict_output rt d of
             Some r \<Rightarrow> Some r
           | None \<Rightarrow> (case map_of d ''response'' of Some v \<Rightarrow> Some (Inr v) | None \<Rightarrow> None))
      | _ \<Rightarrow> None)"

definition detect_str_from_output :: "runtime \<Rightarrow> pyval \<Rightarrow> error + pyval" where
  "detect_str_from_output rt output0 =
     (let output_class_name = class_name output0;
          output = bytes_to_dict rt output0
      in case openai_model_output rt output_class_name output of
           Some r \<Rightarrow> r
         | None \<Rightarrow>
             (case dict_output rt output of
                Some r \<Rightarrow> r
              | None \<Rightarrow> Inr (py_str rt output)))"

definition detect_usage_from_input_output :: "pyval \<Rightarrow> pyval \<Rightarrow> pyval" where
  "detect_usage_from_input_output input output0 =
     (let output = (case output0 of PModel c fs \<Rightarrow> model_dump output0 | _ \<Rightarrow> output0)
      in case output of
           PDict d \<Rightarrow>
             (case map_of d ''usage'' of
                Some usage \<Rightarrow> usage
              | None \<Rightarrow>
                  if map_of d ''object'' = Some (PStr ''chat.completion.chunk'')
                  then PDict [(''completion_tokens'', PInt 1)]
                  else PNone)
         | _ \<Rightarrow> PNone)"

text \<open>
  \<^verbatim>\<open>is_jsonable\<close> and \<^verbatim>\<open>filter_nonjsonable_keys\<close> are imported from
  \<^verbatim>\<open>phospho/utils.py\<close>, which is not among the sources.
\<close>

fun is_jsonable :: "pyval \<Rightarrow> bool" where
  \<comment> \<open>Modelled from the spec: \<^verbatim>\<open>utils.is_jsonable\<close> is missing; the spec's ``fully
      serializable'': JSON scalars and strings, and lists and dicts of serializable
      values. Bytes, models and other objects are not.\<close>
  "is_jsonable PNone = True"
| "is_jsonable (PBool b) = True"
| "is_jsonable (PInt i) = True"
| "is_jsonable (PStr s) = True"
| "is_jsonable (PBytes b) = False"
| "is_jsonable (PList xs) = list_all is_jsonable xs"
| "is_jsonable (PDict d) = list_all is_jsonable (map snd d)"
| "is_jsonable (PModel c fs) = False"
| "is_jsonable (PObj c fs) = False"

definition filter_nonjsonable_keys :: "pyval \<Rightarrow> error + pyval" where
  \<comment> \<open>Modelled from the spec: \<^verbatim>\<open>utils.filter_nonjsonable_keys\<close> is missing; the spec's
      ``a filtered mapping with non-serializable fields removed''. The spec speaks of
      mappings only; a value that is no dict has no items to read.\<close>
  "filter_nonjsonable_keys x =
     (case x of
        PDict d \<Rightarrow> Inr (PDict (filter (\<lambda>(k, v). is_jsonable v) d))
      | _ \<Rightarrow> Inl AttributeError)"

definition to_raw_log :: "runtime \<Rightarrow> pyval \<Rightarrow> error + pyval" where
  \<comment> \<open>The \<^verbatim>\<open>if not is_jsonable(x): ... else: ...\<close> that computes the structured
      representation, written four times in the source.\<close>
  "to_raw_log rt x =
     (if \<not> is_jsonable x then
        (case convert_to_dict rt x of
           Inl e \<Rightarrow> Inl e
         | Inr d \<Rightarrow> filter_nonjsonable_keys d)
      else Inr x)"

definition raw_override :: "runtime \<Rightarrow> pyval \<Rightarrow> pyval \<times> pyval \<Rightarrow> error + pyval \<times> pyval" where
  \<comment> \<open>\<^verbatim>\<open>if raw is not None\<close>: the raw value overrides the structured representation.\<close>
  "raw_override rt raw r =
     (case raw of
        PNone \<Rightarrow> Inr r
      | _ \<Rightarrow> (case to_raw_log rt raw of Inl e \<Rightarrow> Inl e | Inr l \<Rightarrow> Inr (fst r, l)))"

definition extract_data_from_output ::
  "runtime \<Rightarrow> pyval \<Rightarrow> pyval \<Rightarrow> (pyval \<Rightarrow> error + pyval) option \<Rightarrow> error + pyval \<times> pyval" where
  "extract_data_from_output rt output raw_output output_to_str_function0 =
     (let output_to_str_function =
            (case output_to_str_function0 of None \<Rightarrow> detect_str_from_output rt | Some f \<Rightarrow> f)
      in case (case output of
                 PNone \<Rightarrow> Inr (PNone, PNone)
               | PStr s \<Rightarrow> Inr (output, output)
               | _ \<Rightarrow>
                   (case output_to_str_function output of
                      Inl e \<Rightarrow> Inl e
                    | Inr output_to_log \<Rightarrow>
                        (case to_raw_log rt output of
                           Inl e \<Rightarrow> Inl e
                         | Inr raw_output_to_log \<Rightarrow> Inr (output_to_log, raw_output_to_log)))) of
           Inl e \<Rightarrow> Inl e
         | Inr r \<Rightarrow> raw_override rt raw_output r)"

definition extract_data_from_input ::
  "runtime \<Rightarrow> pyval \<Rightarrow> pyval \<Rightarrow> (pyval \<Rightarrow> error + pyval) option \<Rightarrow> error + pyval \<times> pyval" where
  "extract_data_from_input rt input raw_input input_to_str_function0 =
     (let input_to_str_function =
            (case input_to_str_function0 of None \<Rightarrow> detect_str_from_input rt | Some f \<Rightarrow> f)
      in case (case input of
                 PStr s \<Rightarrow> Inr (input, input)
               | _ \<Rightarrow>
                   (case input_to_str_function input of
                      Inl e \<Rightarrow> Inl e
                    | Inr input_to_log \<Rightarrow>
                        (case to_raw_log rt input of
                           Inl e \<Rightarrow> Inl e
                         | Inr raw_input_to_log \<Rightarrow> Inr (input_to_log, raw_input_to_log)))) of
           Inl e \<Rightarrow> Inl e
         | Inr r \<Rightarrow> raw_override rt raw_input r)"

section \<open>Jobs and workloads (lab.py)\<close>

text \<open>
  \<^verbatim>\<open>Message\<close> and \<^verbatim>\<open>JobResult\<close> are imported from \<^verbatim>\<open>phospho/lab/models.py\<close>, which is
  not among the sources. The code reads only \<^verbatim>\<open>message.id\<close> (the field \<open>msg_id\<close>
  here); a job result is a value of any type \<open>'r\<close>.
\<close>

datatype role = User | Assistant

record message =
  msg_id :: string
  msg_role :: role
  msg_content :: string

text \<open>
  A job function is called as \<^verbatim>\<open>job_function(message, **params)\<close>: it maps the message
  and the keyword arguments to a result or to the exception it raises. Its
  \<^verbatim>\<open>__name__\<close> is the default job id.
\<close>

record 'r callable =
  fn_name :: string
  fn_call :: "message \<Rightarrow> (string \<times> pyval) list \<Rightarrow> error + 'r"

text \<open>
  \<^verbatim>\<open>Job.__init__\<close> takes its function from the caller or, by \<^verbatim>\<open>getattr\<close>, from the
  module \<^verbatim>\<open>job_library\<close>, and checks only that it is not \<open>None\<close>. What a job holds is
  therefore any object a name of the module can be bound to: a callable, or a value
  that cannot be called, such as the string under \<^verbatim>\<open>__name__\<close> that every module has,
  or \<open>None\<close> (which is \<open>Data PNone\<close>). The module is not among the sources and is a
  parameter: the partial map from its attribute names to their values.
\<close>

datatype 'r attribute =
    Callable "'r callable"
  | Data pyval

record 'r job =
  job_id :: string
  params :: pyval
  job_function :: "'r attribute"
  job_results :: "string \<rightharpoonup> 'r"

definition is_none :: "'r attribute \<Rightarrow> bool" where
  \<comment> \<open>\<^verbatim>\<open>x is None\<close>\<close>
  "is_none x = (case x of Data PNone \<Rightarrow> True | _ \<Rightarrow> False)"

definition function_name :: "'r attribute \<Rightarrow> error + string" where
  \<comment> \<open>\<^verbatim>\<open>job_function.__name__\<close>: a function has a name; the values of \<open>pyval\<close> are
      instances of data classes, which have none.\<close>
  "function_name x = (case x of Callable f \<Rightarrow> Inr (fn_name f) | Data v \<Rightarrow> Inl AttributeError)"

definition job_init ::
  "(string \<rightharpoonup> 'r attribute) \<Rightarrow> 'r attribute \<Rightarrow> pyval \<Rightarrow> string option \<Rightarrow> pyval
     \<Rightarrow> error + 'r job" where
  \<comment> \<open>\<^verbatim>\<open>Job.__init__\<close>. The first argument is the module \<^verbatim>\<open>job_library\<close>;
      \<^verbatim>\<open>getattr(job_library, job_name)\<close> returns whatever the name is bound to and
      raises AttributeError when the module has no such attribute.\<close>
  "job_init job_library job_function0 job_name job_id0 params0 =
     (let params = (case params0 of PNone \<Rightarrow> PDict [] | _ \<Rightarrow> params0)
      in if is_none job_function0 \<and> job_name = PNone then Inl ValueError
         else
           (case (case job_name of
                    PNone \<Rightarrow> Inr job_function0
                  | PStr n \<Rightarrow>
                      (case job_library n of
                         None \<Rightarrow> Inl AttributeError
                       | Some a \<Rightarrow> Inr a)
                  | _ \<Rightarrow> Inl TypeError) of
              Inl e \<Rightarrow> Inl e
            | Inr job_function1 \<Rightarrow>
                if is_none job_function1 then Inl AssertionError
                else
                  (case (case job_id0 of
                           Some i \<Rightarrow> Inr i
                         | None \<Rightarrow>
                             (case job_name of
                                PStr n \<Rightarrow> Inr n
                              | _ \<Rightarrow> function_name job_function1)) of
                     Inl e \<Rightarrow> Inl e
                   | Inr i \<Rightarrow>
                       Inr \<lparr> job_id = i,
                             params = params,
                             job_function = job_function1,
                             job_results = Map.empty \<rparr>)))"

definition call_job_function :: "'r job \<Rightarrow> message \<Rightarrow> error + 'r" where
  \<comment> \<open>The call \<^verbatim>\<open>self.job_function(message, **self.params)\<close>: only a callable can be
      called, and \<^verbatim>\<open>**\<close> takes a mapping; Python raises TypeError otherwise.\<close>
  "call_job_function j m =
     (case job_function j of
        Callable f \<Rightarrow>
          (case params j of
             PDict kwargs \<Rightarrow> fn_call f m kwargs
           | _ \<Rightarrow> Inl TypeError)
      | Data v \<Rightarrow> Inl TypeError)"

definition job_run :: "'r job \<Rightarrow> message \<Rightarrow> (error + 'r) \<times> 'r job" where
  \<comment> \<open>\<^verbatim>\<open>Job.run\<close>: what the call returns or raises, and the job afterwards.\<close>
  "job_run j m =
     (case call_job_function j m of
        Inl e \<Rightarrow> (Inl e, j)
      | Inr result \<Rightarrow> (Inr result, j\<lparr>job_results := (job_results j)(msg_id m \<mapsto> result)\<rparr>))"

record 'r workload =
  jobs :: "'r job list"
  results :: "string \<rightharpoonup> (string \<rightharpoonup> 'r)"

definition workload_init :: "'r workload" where
  "workload_init = \<lparr> jobs = [], results = Map.empty \<rparr>"

definition add_job :: "'r workload \<Rightarrow> 'r job \<Rightarrow> 'r workload" where
  "add_job w j = w\<lparr>jobs := jobs w @ [j]\<rparr>"

definition subscript :: "pyval \<Rightarrow> string \<Rightarrow> error + pyval" where
  \<comment> \<open>\<^verbatim>\<open>x[key]\<close> for a string \<open>key\<close>\<close>
  "subscript x key =
     (case x of
        PDict d \<Rightarrow> (case map_of d key of None \<Rightarrow> Inl KeyError | Some v \<Rightarrow> Inr v)
      | _ \<Rightarrow> Inl TypeError)"

definition method_items :: "pyval \<Rightarrow> error + (string \<times> pyval) list" where
  \<comment> \<open>\<^verbatim>\<open>x.items()\<close>\<close>
  "method_items x = (case x of PDict d \<Rightarrow> Inr d | _ \<Rightarrow> Inl AttributeError)"

fun add_jobs ::
  "(string \<rightharpoonup> 'r attribute) \<Rightarrow> (string \<times> pyval) list \<Rightarrow> 'r workload \<Rightarrow> error + 'r workload" where
  \<comment> \<open>The loop of \<^verbatim>\<open>from_config\<close> over the items of \<^verbatim>\<open>config["jobs"]\<close>.\<close>
  "add_jobs job_library [] w = Inr w"
| "add_jobs job_library ((jid, job_config) # rest) w =
     (case subscript job_config ''name'' of
        Inl e \<Rightarrow> Inl e
      | Inr name \<Rightarrow>
          (case method_get job_config ''params'' (PDict []) of
             Inl e \<Rightarrow> Inl e
           | Inr ps \<Rightarrow>
               (case job_init job_library (Data PNone) name (Some jid) ps of
                  Inl e \<Rightarrow> Inl e
                | Inr j \<Rightarrow> add_jobs job_library rest (add_job w j))))"

definition from_config :: "(string \<rightharpoonup> 'r attribute) \<Rightarrow> pyval \<Rightarrow> error + 'r workload" where
  "from_config job_library config =
     (case subscript config ''jobs'' of
        Inl e \<Rightarrow> Inl e
      | Inr js \<Rightarrow>
          (case method_items js of
             Inl e \<Rightarrow> Inl e
           | Inr its \<Rightarrow> add_jobs job_library its workload_init))"

text \<open>
  \<^verbatim>\<open>Workload.run\<close> first dispatches every job over the messages. In sequential mode an
  exception of \<^verbatim>\<open>job.run\<close> ends the run; the jobs keep what they stored before. In
  parallel mode \<^verbatim>\<open>executor.map\<close> submits one task per message and its results are
  never read, so an exception stays in its future; the tasks are taken here in the
  order of submission. The messages are a list, iterated twice.
\<close>

fun dispatch_sequential :: "'r job \<Rightarrow> message list \<Rightarrow> error option \<times> 'r job" where
  "dispatch_sequential j [] = (None, j)"
| "dispatch_sequential j (m # ms) =
     (case job_run j m of
        (Inl e, j') \<Rightarrow> (Some e, j')
      | (Inr r, j') \<Rightarrow> dispatch_sequential j' ms)"

fun dispatch_parallel :: "'r job \<Rightarrow> message list \<Rightarrow> 'r job" where
  "dispatch_parallel j [] = j"
| "dispatch_parallel j (m # ms) = dispatch_parallel (snd (job_run j m)) ms"

fun run_jobs :: "string \<Rightarrow> 'r job list \<Rightarrow> message list \<Rightarrow> error option \<times> 'r job list" where
  "run_jobs executor_type [] ms = (None, [])"
| "run_jobs executor_type (j # js) ms =
     (if executor_type = ''parallel'' then
        (case run_jobs executor_type js ms of
           (e, js') \<Rightarrow> (e, dispatch_parallel j ms # js'))
      else if executor_type = ''sequential'' then
        (case dispatch_sequential j ms of
           (Some e, j') \<Rightarrow> (Some e, j' # js)
         | (None, j') \<Rightarrow>
             (case run_jobs executor_type js ms of (e, js') \<Rightarrow> (e, j' # js')))
      else (Some NotImplementedError, j # js))"

fun collect_jobs :: "'r job list \<Rightarrow> string \<Rightarrow> (string \<rightharpoonup> 'r) \<Rightarrow> error + (string \<rightharpoonup> 'r)" where
  \<comment> \<open>The inner loop of the collection: one row of the table, a KeyError when a job
      has no result for the message.\<close>
  "collect_jobs [] mid row = Inr row"
| "collect_jobs (j # js) mid row =
     (case job_results j mid of
        None \<Rightarrow> Inl KeyError
      | Some r \<Rightarrow> collect_jobs js mid (row(job_id j \<mapsto> r)))"

fun collect ::
  "'r job list \<Rightarrow> message list \<Rightarrow> (string \<rightharpoonup> (string \<rightharpoonup> 'r)) \<Rightarrow> error + (string \<rightharpoonup> (string \<rightharpoonup> 'r))" where
  "collect js [] res = Inr res"
| "collect js (m # ms) res =
     (case collect_jobs js (msg_id m) Map.empty of
        Inl e \<Rightarrow> Inl e
      | Inr row \<Rightarrow> collect js ms (res(msg_id m \<mapsto> row)))"

definition workload_run ::
  "'r workload \<Rightarrow> message list \<Rightarrow> string
     \<Rightarrow> (error + (string \<rightharpoonup> (string \<rightharpoonup> 'r))) \<times> 'r workload" where
  \<comment> \<open>\<^verbatim>\<open>Workload.run\<close>: what it returns or raises, and the workload afterwards.\<close>
  "workload_run w ms executor_type =
     (case run_jobs executor_type (jobs w) ms of
        (Some e, js) \<Rightarrow> (Inl e, w\<lparr>jobs := js\<rparr>)
      | (None, js) \<Rightarrow>
          (case collect js ms Map.empty of
             Inl e \<Rightarrow> (Inl e, w\<lparr>jobs := js\<rparr>)
           | Inr res \<Rightarrow> (Inr res, w\<lparr>jobs := js, results := res\<rparr>)))"

section \<open>Notions of the specification\<close>

text \<open>
  The specification states the usage detection over the output ``after coercion to
  a mapping'', speaks of the ``recognized shape'' of an input, of a ``configured
  job's name'' and of the ``registry of named job functions''. Each is written here
  as the specification words it, to be compared with what the code computes.
\<close>

definition usage_rule :: "(string \<times> pyval) list \<Rightarrow> pyval" where
  \<comment> \<open>The rule of the specification on a mapping: its \<^verbatim>\<open>usage\<close> field when it has one,
      else \<^verbatim>\<open>{completion_tokens: 1}\<close> when its \<^verbatim>\<open>object\<close> field is the chunk literal,
      else nothing.\<close>
  "usage_rule d =
     (case map_of d ''usage'' of
        Some usage \<Rightarrow> usage
      | None \<Rightarrow>
          if map_of d ''object'' = Some (PStr ''chat.completion.chunk'')
          then PDict [(''completion_tokens'', PInt 1)]
          else PNone)"

definition detect_usage_spec :: "runtime \<Rightarrow> pyval \<Rightarrow> pyval \<Rightarrow> pyval" where
  \<comment> \<open>\<^verbatim>\<open>detectUsageFromInputOutput\<close> as the specification words it: the rule on the
      output after coercion to a mapping. The coercion of the specification is
      \<^verbatim>\<open>toMapping\<close>, which is \<^verbatim>\<open>convert_to_dict\<close>; where it fails or gives no mapping
      there is nothing to return.\<close>
  "detect_usage_spec rt input output =
     (case convert_to_dict rt output of
        Inr (PDict d) \<Rightarrow> usage_rule d
      | _ \<Rightarrow> PNone)"

definition last_message_content :: "pyval \<Rightarrow> pyval option" where
  \<comment> \<open>The recognized input shape: a mapping with a non-empty list under \<^verbatim>\<open>messages\<close>
      whose last element has a non-null \<^verbatim>\<open>content\<close> field; the result is that content.\<close>
  "last_message_content x =
     (case x of
        PDict d \<Rightarrow>
          (case map_of d ''messages'' of
             Some (PList msgs) \<Rightarrow>
               if msgs = [] then None
               else (case last msgs of
                       PDict md \<Rightarrow>
                         (case map_of md ''content'' of
                            None \<Rightarrow> None
                          | Some v \<Rightarrow> if v = PNone then None else Some v)
                     | _ \<Rightarrow> None)
           | _ \<Rightarrow> None)
      | _ \<Rightarrow> None)"

definition configured_name :: "pyval \<Rightarrow> string option" where
  \<comment> \<open>The name of a configured job: the string under \<^verbatim>\<open>name\<close> of a job's mapping
      \<^verbatim>\<open>{name: ..., params?: ...}\<close>.\<close>
  "configured_name job_config =
     (case job_config of
        PDict kvs \<Rightarrow> (case map_of kvs ''name'' of Some (PStr n) \<Rightarrow> Some n | _ \<Rightarrow> None)
      | _ \<Rightarrow> None)"

definition registered :: "(string \<rightharpoonup> 'r attribute) \<Rightarrow> string \<Rightarrow> bool" where
  \<comment> \<open>The registry of named job functions: the names that the job library binds to a
      callable.\<close>
  "registered job_library n =
     (case job_library n of Some (Callable f) \<Rightarrow> True | _ \<Rightarrow> False)"

section \<open>Example values\<close>

text \<open>
  Concrete values at which the theorems below are instantiated. The example runtime
  is a stub whose JSON decoder knows two texts, \<^verbatim>\<open>{}\<close> and the JSON object whose
  one field, \<^verbatim>\<open>usage\<close>, is the object \<^verbatim>\<open>{total_tokens: 42}\<close>, and rejects every other
  text; it is used on these two and on the text \<^verbatim>\<open>hello\<close>, which is not JSON. Its
  \<^verbatim>\<open>str\<close> is a stub too, and no statement depends on the text it returns.
\<close>

definition example_usage_text :: string where
  \<comment> \<open>The JSON text of the object with the field \<^verbatim>\<open>usage\<close> equal to
      \<^verbatim>\<open>{total_tokens: 42}\<close>; character 0x22 is the double quote around each key.\<close>
  "example_usage_text =
     ''{'' @ [CHR 0x22] @ ''usage'' @ [CHR 0x22] @ '': {'' @ [CHR 0x22] @ ''total_tokens''
       @ [CHR 0x22] @ '': 42}}''"

definition example_runtime :: runtime where
  "example_runtime =
     \<lparr> json_loads =
         (\<lambda>s. if s = ''{}'' then Some (PDict [])
              else if s = example_usage_text
              then Some (PDict [(''usage'', PDict [(''total_tokens'', PInt 42)])])
              else None),
       bytes_decode = Some,
       str_of = (\<lambda>v. ''<value>''),
       dict_of_list = (\<lambda>xs. DictTypeError) \<rparr>"

definition example_chunk :: "pyval \<Rightarrow> pyval" where
  \<comment> \<open>A streaming chunk record with the given \<^verbatim>\<open>delta.content\<close>.\<close>
  "example_chunk v =
     PDict [(''choices'', PList [PDict [(''delta'', PDict [(''content'', v)])]]),
            (''object'', PStr ''chat.completion.chunk'')]"

definition example_completion :: pyval where
  "example_completion =
     PDict [(''choices'', PList [PDict [(''message'', PDict [(''content'', PStr ''X'')])]]),
            (''usage'', PDict [(''total_tokens'', PInt 42)]),
            (''model'', PStr ''gpt-x'')]"

definition example_message1 :: message where
  "example_message1 = \<lparr> msg_id = ''m1'', msg_role = User, msg_content = ''hi'' \<rparr>"

definition example_message2 :: message where
  "example_message2 = \<lparr> msg_id = ''m2'', msg_role = Assistant, msg_content = ''hello'' \<rparr>"

definition length_function :: "nat callable" where
  "length_function =
     \<lparr> fn_name = ''length'', fn_call = (\<lambda>m kwargs. Inr (length (msg_content m))) \<rparr>"

definition failing_function :: "nat callable" where
  "failing_function =
     \<lparr> fn_name = ''failing'', fn_call = (\<lambda>m kwargs. Inl (Raised ''RuntimeError'')) \<rparr>"

definition example_job :: "nat job" where
  "example_job =
     \<lparr> job_id = ''count'', params = PDict [], job_function = Callable length_function,
       job_results = Map.empty \<rparr>"

definition failing_job :: "nat job" where
  "failing_job =
     \<lparr> job_id = ''fail'', params = PDict [], job_function = Callable failing_function,
       job_results = Map.empty \<rparr>"

definition example_library :: "string \<rightharpoonup> nat attribute" where
  \<comment> \<open>A job library that defines one function, \<^verbatim>\<open>length\<close>. Like every module it has a
      \<^verbatim>\<open>__name__\<close>, a string.\<close>
  "example_library =
     (\<lambda>n. if n = ''length'' then Some (Callable length_function)
          else if n = ''__name__'' then Some (Data (PStr ''phospho.lab.job_library''))
          else None)"

definition example_config :: pyval where
  "example_config =
     PDict [(''jobs'',
             PDict [(''a'', PDict [(''name'', PStr ''length'')]),
                    (''b'', PDict [(''name'', PStr ''nope''), (''params'', PDict [])])])]"

definition example_config_module_name :: pyval where
  \<comment> \<open>The configuration \<^verbatim>\<open>{jobs: {a: {name: __name__}}}\<close>.\<close>
  "example_config_module_name =
     PDict [(''jobs'', PDict [(''a'', PDict [(''name'', PStr ''__name__'')])])]"

section \<open>Facts about the blocks of the normalizer\<close>

lemma py_str_is_str: "\<exists>s. py_str rt v = PStr s"
  by (cases v) (simp_all add: py_str_def)

lemma py_str_PStr: "py_str rt (PStr s) = PStr s"
  by (simp add: py_str_def)

lemma bytes_to_dict_PDict: "bytes_to_dict rt (PDict d) = PDict d"
  by (simp add: bytes_to_dict_def)

lemma openai_model_output_PDict: "openai_model_output rt n (PDict d) = None"
  by (simp add: openai_model_output_def)

lemma detect_str_from_output_PDict:
  "detect_str_from_output rt (PDict d) =
     (case dict_output rt (PDict d) of Some r \<Rightarrow> r | None \<Rightarrow> Inr (py_str rt (PDict d)))"
  by (simp add: detect_str_from_output_def bytes_to_dict_PDict openai_model_output_PDict Let_def)

lemma detect_str_from_output_other:
  "detect_str_from_output rt (PObj c fs) = Inr (py_str rt (PObj c fs))"
  "detect_str_from_output rt (PModel ''Reply'' fs) = Inr (py_str rt (PModel ''Reply'' fs))"
  by (simp_all add: detect_str_from_output_def bytes_to_dict_def openai_model_output_def
      dict_output_def Let_def class_name_def)

lemma to_raw_log_jsonable: "is_jsonable x \<Longrightarrow> to_raw_log rt x = Inr x"
  by (simp add: to_raw_log_def)

lemma to_raw_log_PDict:
  "to_raw_log rt (PDict d) =
     Inr (if is_jsonable (PDict d) then PDict d
          else PDict (filter (\<lambda>(k, v). is_jsonable v) d))"
  by (simp add: to_raw_log_def convert_to_dict_def filter_nonjsonable_keys_def)

lemma to_raw_log_PModel:
  "to_raw_log rt (PModel c fs) =
     Inr (PDict (filter (\<lambda>(k, v). is_jsonable v) (map (\<lambda>(k, v). (k, dump v)) fs)))"
  by (simp add: to_raw_log_def convert_to_dict_def filter_nonjsonable_keys_def model_dump_def)

lemma to_raw_log_PObj: "to_raw_log rt (PObj c fs) = Inl NotImplementedError"
  by (simp add: to_raw_log_def convert_to_dict_def py_dict_def)

lemma to_raw_log_PBytes:
  "bytes_decode rt b = None \<Longrightarrow> to_raw_log rt (PBytes b) = Inl UnicodeDecodeError"
  "bytes_decode rt b = Some s \<Longrightarrow> json_loads rt s = None
     \<Longrightarrow> to_raw_log rt (PBytes b) = Inl JSONDecodeError"
  "bytes_decode rt b = Some s \<Longrightarrow> json_loads rt s = Some (PDict m)
     \<Longrightarrow> to_raw_log rt (PBytes b) = Inr (PDict (filter (\<lambda>(k, v). is_jsonable v) m))"
  by (simp_all add: to_raw_log_def convert_to_dict_def filter_nonjsonable_keys_def)

lemma raw_override_PNone: "raw_override rt PNone r = Inr r"
  by (simp add: raw_override_def)

lemma raw_override_to_raw_log:
  "raw \<noteq> PNone \<Longrightarrow>
     raw_override rt raw r = (case to_raw_log rt raw of Inl e \<Rightarrow> Inl e | Inr l \<Rightarrow> Inr (fst r, l))"
  by (cases raw) (simp_all add: raw_override_def)

lemma raw_override_fst: "raw_override rt raw r = Inr r' \<Longrightarrow> fst r' = fst r"
  by (cases raw) (auto simp: raw_override_def split: sum.splits)

text \<open>
  The raw value, when there is one, replaces the structured representation. What
  replaces it is computed from the raw value alone, by its shape.
\<close>

lemma raw_override_shapes:
  "(is_jsonable raw \<and> raw \<noteq> PNone \<longrightarrow> raw_override rt raw r = Inr (fst r, raw))
   \<and> (\<forall>m. raw = PDict m \<longrightarrow>
          raw_override rt raw r =
            Inr (fst r, if is_jsonable raw then raw
                        else PDict (filter (\<lambda>(k, v). is_jsonable v) m)))
   \<and> (\<forall>c fs. raw = PModel c fs \<longrightarrow>
          raw_override rt raw r =
            Inr (fst r, PDict (filter (\<lambda>(k, v). is_jsonable v) (map (\<lambda>(k, v). (k, dump v)) fs))))
   \<and> (\<forall>c fs. raw = PObj c fs \<longrightarrow> raw_override rt raw r = Inl NotImplementedError)
   \<and> (\<forall>b. raw = PBytes b \<and> bytes_decode rt b = None \<longrightarrow>
          raw_override rt raw r = Inl UnicodeDecodeError)
   \<and> (\<forall>b s. raw = PBytes b \<and> bytes_decode rt b = Some s \<and> json_loads rt s = None \<longrightarrow>
          raw_override rt raw r = Inl JSONDecodeError)
   \<and> (\<forall>b s m. raw = PBytes b \<and> bytes_decode rt b = Some s \<and> json_loads rt s = Some (PDict m) \<longrightarrow>
          raw_override rt raw r = Inr (fst r, PDict (filter (\<lambda>(k, v). is_jsonable v) m)))"
proof (intro conjI allI impI)
  assume "is_jsonable raw \<and> raw \<noteq> PNone"
  then show "raw_override rt raw r = Inr (fst r, raw)"
    by (simp add: raw_override_to_raw_log to_raw_log_jsonable)
next
  fix m
  assume "raw = PDict m"
  then show "raw_override rt raw r =
               Inr (fst r, if is_jsonable raw then raw
                           else PDict (filter (\<lambda>(k, v). is_jsonable v) m))"
    by (simp add: raw_override_to_raw_log to_raw_log_PDict)
next
  fix c fs
  assume "raw = PModel c fs"
  then show "raw_override rt raw r =
               Inr (fst r, PDict (filter (\<lambda>(k, v). is_jsonable v) (map (\<lambda>(k, v). (k, dump v)) fs)))"
    by (simp add: raw_override_to_raw_log to_raw_log_PModel)
next
  fix c fs
  assume "raw = PObj c fs"
  then show "raw_override rt raw r = Inl NotImplementedError"
    by (simp add: raw_override_to_raw_log to_raw_log_PObj)
next
  fix b
  assume "raw = PBytes b \<and> bytes_decode rt b = None"
  then show "raw_override rt raw r = Inl UnicodeDecodeError"
    by (simp add: raw_override_to_raw_log to_raw_log_PBytes)
next
  fix b s
  assume "raw = PBytes b \<and> bytes_decode rt b = Some s \<and> json_loads rt s = None"
  then show "raw_override rt raw r = Inl JSONDecodeError"
    by (simp add: raw_override_to_raw_log to_raw_log_PBytes)
next
  fix b s m
  assume "raw = PBytes b \<and> bytes_decode rt b = Some s \<and> json_loads rt s = Some (PDict m)"
  then show "raw_override rt raw r = Inr (fst r, PDict (filter (\<lambda>(k, v). is_jsonable v) m))"
    by (simp add: raw_override_to_raw_log to_raw_log_PBytes)
qed

lemma extract_data_from_output_raw:
  "extract_data_from_output rt output raw f =
     (case extract_data_from_output rt output PNone f of
        Inl e \<Rightarrow> Inl e
      | Inr r \<Rightarrow> raw_override rt raw r)"
  by (simp add: extract_data_from_output_def raw_override_PNone Let_def split: sum.splits)

lemma extract_data_from_output_no_raw:
  assumes "output \<noteq> PNone" and "\<forall>s. output \<noteq> PStr s"
  shows "extract_data_from_output rt output PNone f =
           (case (case f of None \<Rightarrow> detect_str_from_output rt | Some g \<Rightarrow> g) output of
              Inl e \<Rightarrow> Inl e
            | Inr t \<Rightarrow> (case to_raw_log rt output of Inl e \<Rightarrow> Inl e | Inr l \<Rightarrow> Inr (t, l)))"
  using assms
  by (cases "output")
    (simp_all add: extract_data_from_output_def raw_override_PNone Let_def split: sum.splits)

section \<open>C1: \<^verbatim>\<open>extract_data_from_output\<close> and exceptions\<close>

text \<open>
  Claim C1 says that \<^verbatim>\<open>extract_data_from_output\<close> never raises, whatever the shape of
  the output. It does raise: a plain object of a class the code does not know is not
  serializable, \<^verbatim>\<open>convert_to_dict\<close> finds no way to make a dict of it, and its
  NotImplementedError is not caught. This holds for every runtime.
\<close>

theorem extract_data_from_output_raises:
  "\<forall>rt. extract_data_from_output rt (PObj ''Foo'' []) PNone None = Inl NotImplementedError"
  by (simp add: extract_data_from_output_def detect_str_from_output_other to_raw_log_PObj Let_def)

text \<open>
  Claim C1, as amended. \<open>F\<close> is the string-extraction function: the one given, and
  \<^verbatim>\<open>detect_str_from_output\<close> otherwise.

  With no raw output, \<^verbatim>\<open>extract_data_from_output\<close> returns \<open>(None, None)\<close> on \<open>None\<close> and
  \<open>(s, s)\<close> on a string \<open>s\<close>. On any other output it raises what \<open>F\<close> raises. When \<open>F\<close>
  returns \<open>t\<close>:
  \<^item> on a mapping it returns \<open>t\<close> and the mapping itself when that is serializable,
    and otherwise the mapping without its non-serializable fields;
  \<^item> on a structured record it returns \<open>t\<close> and the field mapping without its
    non-serializable fields;
  \<^item> on a byte sequence whose text is a JSON object it returns \<open>t\<close> and that object
    without its non-serializable fields; it raises UnicodeDecodeError when the bytes
    do not decode and JSONDecodeError when their text is not JSON;
  \<^item> on a plain object of another class it raises NotImplementedError.

  A raw output never turns an exception into a result. When the call without it
  returns, the call with it returns the same text, and the raw output in place of
  the structured representation, made serializable in the same way: itself when it
  is serializable, the filtered mapping for a mapping, a structured record or the
  bytes of a JSON object, and an exception for undecodable bytes, bytes that are not
  JSON, and a plain object.
\<close>

theorem extract_data_from_output_supported:
  "extract_data_from_output rt PNone PNone f = Inr (PNone, PNone)
   \<and> extract_data_from_output rt (PStr s) PNone f = Inr (PStr s, PStr s)
   \<and> (\<forall>e. out \<noteq> PNone \<and> (\<forall>s. out \<noteq> PStr s)
          \<and> (case f of None \<Rightarrow> detect_str_from_output rt | Some g \<Rightarrow> g) out = Inl e \<longrightarrow>
          extract_data_from_output rt out raw f = Inl e)
   \<and> (\<forall>t. (case f of None \<Rightarrow> detect_str_from_output rt | Some g \<Rightarrow> g) (PDict d) = Inr t \<longrightarrow>
          extract_data_from_output rt (PDict d) PNone f =
            Inr (t, if is_jsonable (PDict d) then PDict d
                    else PDict (filter (\<lambda>(k, v). is_jsonable v) d)))
   \<and> (\<forall>t. (case f of None \<Rightarrow> detect_str_from_output rt | Some g \<Rightarrow> g) (PModel c fs) = Inr t \<longrightarrow>
          extract_data_from_output rt (PModel c fs) PNone f =
            Inr (t, PDict (filter (\<lambda>(k, v). is_jsonable v) (map (\<lambda>(k, v). (k, dump v)) fs))))
   \<and> (\<forall>t. (case f of None \<Rightarrow> detect_str_from_output rt | Some g \<Rightarrow> g) (PObj c fs) = Inr t \<longrightarrow>
          extract_data_from_output rt (PObj c fs) PNone f = Inl NotImplementedError)
   \<and> (\<forall>t. (case f of None \<Rightarrow> detect_str_from_output rt | Some g \<Rightarrow> g) (PBytes b) = Inr t \<longrightarrow>
          (bytes_decode rt b = None \<longrightarrow>
             extract_data_from_output rt (PBytes b) PNone f = Inl UnicodeDecodeError)
          \<and> (\<forall>s. bytes_decode rt b = Some s \<and> json_loads rt s = None \<longrightarrow>
                extract_data_from_output rt (PBytes b) PNone f = Inl JSONDecodeError)
          \<and> (\<forall>s m. bytes_decode rt b = Some s \<and> json_loads rt s = Some (PDict m) \<longrightarrow>
                extract_data_from_output rt (PBytes b) PNone f =
                  Inr (t, PDict (filter (\<lambda>(k, v). is_jsonable v) m))))
   \<and> (\<forall>e. extract_data_from_output rt out PNone f = Inl e \<longrightarrow>
          extract_data_from_output rt out raw f = Inl e)
   \<and> (\<forall>r. extract_data_from_output rt out PNone f = Inr r \<longrightarrow>
          (is_jsonable raw \<and> raw \<noteq> PNone \<longrightarrow>
             extract_data_from_output rt out raw f = Inr (fst r, raw))
          \<and> (\<forall>m. raw = PDict m \<longrightarrow>
                extract_data_from_output rt out raw f =
                  Inr (fst r, if is_jsonable raw then raw
                              else PDict (filter (\<lambda>(k, v). is_jsonable v) m)))
          \<and> (\<forall>c fs. raw = PModel c fs \<longrightarrow>
                extract_data_from_output rt out raw f =
                  Inr (fst r, PDict (filter (\<lambda>(k, v). is_jsonable v)
                                       (map (\<lambda>(k, v). (k, dump v)) fs))))
          \<and> (\<forall>c fs. raw = PObj c fs \<longrightarrow>
                extract_data_from_output rt out raw f = Inl NotImplementedError)
          \<and> (\<forall>b. raw = PBytes b \<and> bytes_decode rt b = None \<longrightarrow>
                extract_data_from_output rt out raw f = Inl UnicodeDecodeError)
          \<and> (\<forall>b s. raw = PBytes b \<and> bytes_decode rt b = Some s \<and> json_loads rt s = None \<longrightarrow>
                extract_data_from_output rt out raw f = Inl JSONDecodeError)
          \<and> (\<forall>b s m. raw = PBytes b \<and> bytes_decode rt b = Some s
                  \<and> json_loads rt s = Some (PDict m) \<longrightarrow>
                extract_data_from_output rt out raw f =
                  Inr (fst r, PDict (filter (\<lambda>(k, v). is_jsonable v) m))))"
proof -
  have none: "extract_data_from_output rt PNone PNone f = Inr (PNone, PNone)"
    by (simp add: extract_data_from_output_def raw_override_PNone Let_def)
  have str: "extract_data_from_output rt (PStr s) PNone f = Inr (PStr s, PStr s)"
    by (simp add: extract_data_from_output_def raw_override_PNone Let_def)
  have fails: "extract_data_from_output rt out raw f = Inl e"
    if "out \<noteq> PNone \<and> (\<forall>s. out \<noteq> PStr s)
        \<and> (case f of None \<Rightarrow> detect_str_from_output rt | Some g \<Rightarrow> g) out = Inl e" for e
    using that extract_data_from_output_raw [of rt out raw f]
    by (simp add: extract_data_from_output_no_raw)
  have raw_fails: "extract_data_from_output rt out raw f = Inl e"
    if "extract_data_from_output rt out PNone f = Inl e" for e
    using that extract_data_from_output_raw [of rt out raw f] by simp
  have raw_returns: "extract_data_from_output rt out x f = raw_override rt x r"
    if "extract_data_from_output rt out PNone f = Inr r" for r x
    using that extract_data_from_output_raw [of rt out x f] by simp
  have shapes: "\<forall>r. extract_data_from_output rt out PNone f = Inr r \<longrightarrow>
          (is_jsonable raw \<and> raw \<noteq> PNone \<longrightarrow>
             extract_data_from_output rt out raw f = Inr (fst r, raw))
          \<and> (\<forall>m. raw = PDict m \<longrightarrow>
                extract_data_from_output rt out raw f =
                  Inr (fst r, if is_jsonable raw then raw
                              else PDict (filter (\<lambda>(k, v). is_jsonable v) m)))
          \<and> (\<forall>c fs. raw = PModel c fs \<longrightarrow>
                extract_data_from_output rt out raw f =
                  Inr (fst r, PDict (filter (\<lambda>(k, v). is_jsonable v)
                                       (map (\<lambda>(k, v). (k, dump v)) fs))))
          \<and> (\<forall>c fs. raw = PObj c fs \<longrightarrow>
                extract_data_from_output rt out raw f = Inl NotImplementedError)
          \<and> (\<forall>b. raw = PBytes b \<and> bytes_decode rt b = None \<longrightarrow>
                extract_data_from_output rt out raw f = Inl UnicodeDecodeError)
          \<and> (\<forall>b s. raw = PBytes b \<and> bytes_decode rt b = Some s \<and> json_loads rt s = None \<longrightarrow>
                extract_data_from_output rt out raw f = Inl JSONDecodeError)
          \<and> (\<forall>b s m. raw = PBytes b \<and> bytes_decode rt b = Some s
                  \<and> json_loads rt s = Some (PDict m) \<longrightarrow>
                extract_data_from_output rt out raw f =
                  Inr (fst r, PDict (filter (\<lambda>(k, v). is_jsonable v) m)))"
  proof (intro allI impI)
    fix r
    assume "extract_data_from_output rt out PNone f = Inr r"
    from raw_returns [OF this, of raw] raw_override_shapes [of raw rt r]
    show "(is_jsonable raw \<and> raw \<noteq> PNone \<longrightarrow>
             extract_data_from_output rt out raw f = Inr (fst r, raw))
          \<and> (\<forall>m. raw = PDict m \<longrightarrow>
                extract_data_from_output rt out raw f =
                  Inr (fst r, if is_jsonable raw then raw
                              else PDict (filter (\<lambda>(k, v). is_jsonable v) m)))
          \<and> (\<forall>c fs. raw = PModel c fs \<longrightarrow>
                extract_data_from_output rt out raw f =
                  Inr (fst r, PDict (filter (\<lambda>(k, v). is_jsonable v)
                                       (map (\<lambda>(k, v). (k, dump v)) fs))))
          \<and> (\<forall>c fs. raw = PObj c fs \<longrightarrow>
                extract_data_from_output rt out raw f = Inl NotImplementedError)
          \<and> (\<forall>b. raw = PBytes b \<and> bytes_decode rt b = None \<longrightarrow>
                extract_data_from_output rt out raw f = Inl UnicodeDecodeError)
          \<and> (\<forall>b s. raw = PBytes b \<and> bytes_decode rt b = Some s \<and> json_loads rt s = None \<longrightarrow>
                extract_data_from_output rt out raw f = Inl JSONDecodeError)
          \<and> (\<forall>b s m. raw = PBytes b \<and> bytes_decode rt b = Some s
                  \<and> json_loads rt s = Some (PDict m) \<longrightarrow>
                extract_data_from_output rt out raw f =
                  Inr (fst r, PDict (filter (\<lambda>(k, v). is_jsonable v) m)))"
      by (simp only:)
  qed
  have shaped: "(\<forall>t. (case f of None \<Rightarrow> detect_str_from_output rt | Some g \<Rightarrow> g) (PDict d) = Inr t \<longrightarrow>
          extract_data_from_output rt (PDict d) PNone f =
            Inr (t, if is_jsonable (PDict d) then PDict d
                    else PDict (filter (\<lambda>(k, v). is_jsonable v) d)))"
    "(\<forall>t. (case f of None \<Rightarrow> detect_str_from_output rt | Some g \<Rightarrow> g) (PModel c fs) = Inr t \<longrightarrow>
          extract_data_from_output rt (PModel c fs) PNone f =
            Inr (t, PDict (filter (\<lambda>(k, v). is_jsonable v) (map (\<lambda>(k, v). (k, dump v)) fs))))"
    "(\<forall>t. (case f of None \<Rightarrow> detect_str_from_output rt | Some g \<Rightarrow> g) (PObj c fs) = Inr t \<longrightarrow>
          extract_data_from_output rt (PObj c fs) PNone f = Inl NotImplementedError)"
    "(\<forall>t. (case f of None \<Rightarrow> detect_str_from_output rt | Some g \<Rightarrow> g) (PBytes b) = Inr t \<longrightarrow>
          (bytes_decode rt b = None \<longrightarrow>
             extract_data_from_output rt (PBytes b) PNone f = Inl UnicodeDecodeError)
          \<and> (\<forall>s. bytes_decode rt b = Some s \<and> json_loads rt s = None \<longrightarrow>
                extract_data_from_output rt (PBytes b) PNone f = Inl JSONDecodeError)
          \<and> (\<forall>s m. bytes_decode rt b = Some s \<and> json_loads rt s = Some (PDict m) \<longrightarrow>
                extract_data_from_output rt (PBytes b) PNone f =
                  Inr (t, PDict (filter (\<lambda>(k, v). is_jsonable v) m))))"
    by (simp_all add: extract_data_from_output_no_raw to_raw_log_PDict to_raw_log_PModel
        to_raw_log_PObj to_raw_log_PBytes)
  have str_fails: "\<forall>e. out \<noteq> PNone \<and> (\<forall>s. out \<noteq> PStr s)
          \<and> (case f of None \<Rightarrow> detect_str_from_output rt | Some g \<Rightarrow> g) out = Inl e \<longrightarrow>
          extract_data_from_output rt out raw f = Inl e"
    using fails by blast
  have raw_keeps: "\<forall>e. extract_data_from_output rt out PNone f = Inl e \<longrightarrow>
          extract_data_from_output rt out raw f = Inl e"
    using raw_fails by blast
  show ?thesis
    by (intro conjI) (rule none str str_fails shaped raw_keeps shapes)+
qed

text \<open>
  The amended claim at a mapping with a field of bytes (the field is dropped), at a
  record of a class \<^verbatim>\<open>Reply\<close> with such a field, at a plain object, at the bytes of
  the texts \<^verbatim>\<open>{}\<close> and \<^verbatim>\<open>hello\<close>, and at a string with a raw output.
\<close>

theorem extract_data_from_output_supported_witness:
  "(\<forall>rt. extract_data_from_output rt
           (PDict [(''response'', PStr ''hi''), (''blob'', PBytes ''x'')]) PNone None
         = Inr (PStr ''hi'', PDict [(''response'', PStr ''hi'')]))
   \<and> (\<forall>rt. extract_data_from_output rt
           (PModel ''Reply'' [(''text'', PStr ''hi''), (''blob'', PBytes ''x'')]) PNone None
         = Inr (py_str rt (PModel ''Reply'' [(''text'', PStr ''hi''), (''blob'', PBytes ''x'')]),
                PDict [(''text'', PStr ''hi'')]))
   \<and> (\<forall>rt. extract_data_from_output rt (PObj ''Point'' [(''x'', PInt 1)]) PNone None
         = Inl NotImplementedError)
   \<and> extract_data_from_output example_runtime (PBytes ''{}'') PNone None
       = Inr (py_str example_runtime (PDict []), PDict [])
   \<and> extract_data_from_output example_runtime (PBytes ''hello'') PNone None
       = Inl JSONDecodeError
   \<and> (\<forall>rt. extract_data_from_output rt (PStr ''hi'') (PDict [(''n'', PInt 1)]) None
         = Inr (PStr ''hi'', PDict [(''n'', PInt 1)]))"
proof (intro conjI allI)
  fix rt
  have "detect_str_from_output rt (PDict [(''response'', PStr ''hi''), (''blob'', PBytes ''x'')])
          = Inr (PStr ''hi'')"
    by (simp add: detect_str_from_output_PDict dict_output_def openai_dict_output_def)
  then show "extract_data_from_output rt
               (PDict [(''response'', PStr ''hi''), (''blob'', PBytes ''x'')]) PNone None
             = Inr (PStr ''hi'', PDict [(''response'', PStr ''hi'')])"
    using extract_data_from_output_supported
      [where rt = rt and f = None and d = "[(''response'', PStr ''hi''), (''blob'', PBytes ''x'')]"]
    by simp
next
  fix rt
  show "extract_data_from_output rt
          (PModel ''Reply'' [(''text'', PStr ''hi''), (''blob'', PBytes ''x'')]) PNone None
        = Inr (py_str rt (PModel ''Reply'' [(''text'', PStr ''hi''), (''blob'', PBytes ''x'')]),
               PDict [(''text'', PStr ''hi'')])"
    using extract_data_from_output_supported
      [where rt = rt and f = None and c = "''Reply''"
         and fs = "[(''text'', PStr ''hi''), (''blob'', PBytes ''x'')]"]
    by (simp add: detect_str_from_output_other)
next
  fix rt
  show "extract_data_from_output rt (PObj ''Point'' [(''x'', PInt 1)]) PNone None
        = Inl NotImplementedError"
    using extract_data_from_output_supported
      [where rt = rt and f = None and c = "''Point''" and fs = "[(''x'', PInt 1)]"]
    by (simp add: detect_str_from_output_other)
next
  have loads: "bytes_decode example_runtime ''{}'' = Some ''{}''"
    "json_loads example_runtime ''{}'' = Some (PDict [])"
    by (simp_all add: example_runtime_def)
  have "detect_str_from_output example_runtime (PBytes ''{}'')
          = Inr (py_str example_runtime (PDict []))"
    by (simp add: detect_str_from_output_def bytes_to_dict_def convert_to_dict_def loads
        openai_model_output_def dict_output_def openai_dict_output_def Let_def)
  then show "extract_data_from_output example_runtime (PBytes ''{}'') PNone None
             = Inr (py_str example_runtime (PDict []), PDict [])"
    using extract_data_from_output_supported
      [where rt = example_runtime and f = None and b = "''{}''"]
    by (simp add: loads)
next
  have loads: "bytes_decode example_runtime ''hello'' = Some ''hello''"
    "json_loads example_runtime ''hello'' = None"
    by (simp_all add: example_runtime_def example_usage_text_def)
  have "detect_str_from_output example_runtime (PBytes ''hello'')
          = Inr (py_str example_runtime (PBytes ''hello''))"
    by (simp add: detect_str_from_output_def bytes_to_dict_def convert_to_dict_def loads
        openai_model_output_def dict_output_def Let_def)
  then show "extract_data_from_output example_runtime (PBytes ''hello'') PNone None
             = Inl JSONDecodeError"
    using extract_data_from_output_supported
      [where rt = example_runtime and f = None and b = "''hello''"]
    by (simp add: loads)
next
  fix rt
  show "extract_data_from_output rt (PStr ''hi'') (PDict [(''n'', PInt 1)]) None
        = Inr (PStr ''hi'', PDict [(''n'', PInt 1)])"
    using extract_data_from_output_supported
      [where rt = rt and f = None and s = "''hi''" and out = "PStr ''hi''"
         and raw = "PDict [(''n'', PInt 1)]"]
    by simp
qed

section \<open>C2: \<^verbatim>\<open>convert_to_dict\<close> on mappings and strings\<close>

text \<open>
  Claim C2. \<^verbatim>\<open>convert_to_dict\<close> returns a mapping as it is, and on a string it returns
  what \<^verbatim>\<open>json.loads\<close> returns: it fails exactly when the text is not JSON, and then
  with JSONDecodeError (the ParseError of the specification) and no other exception.
\<close>

theorem convert_to_dict_identity_and_json:
  "convert_to_dict rt (PDict m) = Inr (PDict m)
   \<and> (json_loads rt s = None) = (convert_to_dict rt (PStr s) = Inl JSONDecodeError)
   \<and> (json_loads rt s = Some v) = (convert_to_dict rt (PStr s) = Inr v)
   \<and> (\<forall>e. (convert_to_dict rt (PStr s) = Inl e) = (json_loads rt s = None \<and> e = JSONDecodeError))"
  by (auto simp: convert_to_dict_def split: option.splits)

text \<open>The claim at a mapping, at the text \<^verbatim>\<open>hello\<close> and at the text \<^verbatim>\<open>{}\<close>.\<close>

theorem convert_to_dict_identity_and_json_witness:
  "(\<forall>rt. convert_to_dict rt (PDict [(''a'', PInt 1)]) = Inr (PDict [(''a'', PInt 1)]))
   \<and> convert_to_dict example_runtime (PStr ''hello'') = Inl JSONDecodeError
   \<and> convert_to_dict example_runtime (PStr ''{}'') = Inr (PDict [])"
proof (intro conjI allI)
  fix rt
  show "convert_to_dict rt (PDict [(''a'', PInt 1)]) = Inr (PDict [(''a'', PInt 1)])"
    using convert_to_dict_identity_and_json [of rt "[(''a'', PInt 1)]"] by blast
next
  have "json_loads example_runtime ''hello'' = None"
    by (simp add: example_runtime_def example_usage_text_def)
  then show "convert_to_dict example_runtime (PStr ''hello'') = Inl JSONDecodeError"
    using convert_to_dict_identity_and_json [of example_runtime _ "''hello''"] by blast
next
  have "json_loads example_runtime ''{}'' = Some (PDict [])"
    by (simp add: example_runtime_def example_usage_text_def)
  then show "convert_to_dict example_runtime (PStr ''{}'') = Inr (PDict [])"
    using convert_to_dict_identity_and_json [of example_runtime _ "''{}''" "PDict []"] by blast
qed

section \<open>C3 and C4: \<^verbatim>\<open>detect_str_from_output\<close> on OpenAI mappings\<close>

lemma openai_dict_output_chunk:
  assumes "map_of d ''choices'' = Some (PList (PDict c # rest))"
    and "map_of c ''message'' = None"
    and "map_of c ''delta'' = Some (PDict dl) \<or> (map_of c ''delta'' = None \<and> dl = [])"
  shows "openai_dict_output rt d =
           Some (Inr (case map_of dl ''content'' of
                        None \<Rightarrow> PStr []
                      | Some v \<Rightarrow> if v = PNone then PStr [] else py_str rt v))"
proof (cases "map_of dl ''content''")
  case None
  with assms show ?thesis
    by (auto simp: openai_dict_output_def method_get_def)
next
  case (Some v)
  with assms have dl: "map_of c ''delta'' = Some (PDict dl)"
    by auto
  show ?thesis
    using assms(1,2) dl Some
    by (cases v) (simp_all add: openai_dict_output_def method_get_def)
qed

text \<open>
  Claim C3. The output is a mapping whose \<^verbatim>\<open>choices\<close> is a non-empty list, and the
  first choice is a mapping \<open>c\<close> with no \<^verbatim>\<open>message\<close> field. Its \<^verbatim>\<open>delta\<close> is a mapping
  \<open>dl\<close> (an absent \<^verbatim>\<open>delta\<close> is read as the empty mapping). Then
  \<^verbatim>\<open>detect_str_from_output\<close> returns the string form of \<^verbatim>\<open>delta.content\<close> when it is
  not null, and the empty string when it is null or absent; it does not go on to
  the string form of the whole output.
\<close>

theorem detect_str_from_output_chunk:
  assumes "map_of d ''choices'' = Some (PList (PDict c # rest))"
    and "map_of c ''message'' = None"
    and "map_of c ''delta'' = Some (PDict dl) \<or> (map_of c ''delta'' = None \<and> dl = [])"
  shows "detect_str_from_output rt (PDict d) =
           Inr (case map_of dl ''content'' of
                  None \<Rightarrow> PStr []
                | Some v \<Rightarrow> if v = PNone then PStr [] else py_str rt v)"
  by (simp add: detect_str_from_output_PDict dict_output_def openai_dict_output_chunk [OF assms])

text \<open>The two chunks of the specification: \<^verbatim>\<open>delta.content\<close> is \<^verbatim>\<open>tok\<close>, and it is null.\<close>

theorem detect_str_from_output_chunk_witness:
  "(\<forall>rt. detect_str_from_output rt (example_chunk (PStr ''tok'')) = Inr (PStr ''tok''))
   \<and> (\<forall>rt. detect_str_from_output rt (example_chunk PNone) = Inr (PStr []))"
proof (intro conjI allI)
  fix rt
  show "detect_str_from_output rt (example_chunk (PStr ''tok'')) = Inr (PStr ''tok'')"
    using detect_str_from_output_chunk
      [where rt = rt and rest = "[]" and dl = "[(''content'', PStr ''tok'')]"
         and c = "[(''delta'', PDict [(''content'', PStr ''tok'')])]"
         and d = "[(''choices'', PList [PDict [(''delta'', PDict [(''content'', PStr ''tok'')])]]),
                   (''object'', PStr ''chat.completion.chunk'')]"]
    by (simp add: example_chunk_def py_str_PStr)
next
  fix rt
  show "detect_str_from_output rt (example_chunk PNone) = Inr (PStr [])"
    using detect_str_from_output_chunk
      [where rt = rt and rest = "[]" and dl = "[(''content'', PNone)]"
         and c = "[(''delta'', PDict [(''content'', PNone)])]"
         and d = "[(''choices'', PList [PDict [(''delta'', PDict [(''content'', PNone)])]]),
                   (''object'', PStr ''chat.completion.chunk'')]"]
    by (simp add: example_chunk_def)
qed

text \<open>
  Claim C4. The output is a mapping whose \<^verbatim>\<open>choices\<close> is a non-empty list, the first
  choice is a mapping with a \<^verbatim>\<open>message\<close> field, and \<^verbatim>\<open>message.content\<close> is the string
  \<open>X\<close>. Then \<^verbatim>\<open>detect_str_from_output\<close> returns \<open>X\<close>.
\<close>

theorem detect_str_from_output_completion:
  assumes "map_of d ''choices'' = Some (PList (PDict c # rest))"
    and "map_of c ''message'' = Some (PDict msg)"
    and "map_of msg ''content'' = Some (PStr X)"
  shows "detect_str_from_output rt (PDict d) = Inr (PStr X)"
  using assms
  by (simp add: detect_str_from_output_PDict dict_output_def openai_dict_output_def
      method_get_def py_str_def)

text \<open>The completion record of the specification, with content \<^verbatim>\<open>X\<close>.\<close>

theorem detect_str_from_output_completion_witness:
  "\<forall>rt. detect_str_from_output rt example_completion = Inr (PStr ''X'')"
proof
  fix rt
  show "detect_str_from_output rt example_completion = Inr (PStr ''X'')"
    using detect_str_from_output_completion
      [where rt = rt and rest = "[]" and X = "''X''" and msg = "[(''content'', PStr ''X'')]"
         and c = "[(''message'', PDict [(''content'', PStr ''X'')])]"
         and d = "[(''choices'', PList [PDict [(''message'', PDict [(''content'', PStr ''X'')])]]),
                   (''usage'', PDict [(''total_tokens'', PInt 42)]),
                   (''model'', PStr ''gpt-x'')]"]
    by (simp add: example_completion_def)
qed

section \<open>C5: \<^verbatim>\<open>extract_data_from_input\<close>\<close>

lemma last_message_get:
  assumes "py_contains ''content'' x = Inr True"
    and "method_get x ''content'' PNone = Inr v"
  shows "\<exists>md. x = PDict md \<and> map_of md ''content'' = Some v"
  using assms by (cases x) (auto simp: py_contains_def method_get_def)

lemma last_message_no_content:
  assumes "py_contains ''content'' x = Inr False"
  shows "(case x of
            PDict md \<Rightarrow>
              (case map_of md ''content'' of
                 None \<Rightarrow> None
               | Some v \<Rightarrow> if v = PNone then None else Some v)
          | _ \<Rightarrow> None) = None"
  using assms by (cases x) (auto simp: py_contains_def)

lemma detect_str_from_input_messages:
  assumes "map_of d ''messages'' = Some (PList msgs)" and "msgs \<noteq> []"
    and "detect_str_from_input rt (PDict d) = Inr t"
  shows "t = (case last_message_content (PDict d) of
                Some v \<Rightarrow> py_str rt v
              | None \<Rightarrow> py_str rt (PDict d))"
proof (cases "py_contains ''content'' (last msgs)")
  case (Inl e)
  with assms show ?thesis
    by (simp add: detect_str_from_input_def)
next
  case (Inr b)
  show ?thesis
  proof (cases b)
    case False
    with Inr have nc: "py_contains ''content'' (last msgs) = Inr False"
      by simp
    from assms nc have "t = py_str rt (PDict d)"
      by (simp add: detect_str_from_input_def)
    moreover from assms(1,2) last_message_no_content [OF nc]
    have "last_message_content (PDict d) = None"
      by (simp add: last_message_content_def)
    ultimately show ?thesis
      by simp
  next
    case True
    with Inr have c: "py_contains ''content'' (last msgs) = Inr True"
      by simp
    show ?thesis
    proof (cases "method_get (last msgs) ''content'' PNone")
      case (Inl e)
      with assms c show ?thesis
        by (simp add: detect_str_from_input_def)
    next
      case (Inr v)
      from last_message_get [OF c Inr] obtain md
        where md: "last msgs = PDict md" "map_of md ''content'' = Some v"
        by blast
      from assms c Inr have "t = (if v = PNone then py_str rt (PDict d) else py_str rt v)"
        by (cases v) (simp_all add: detect_str_from_input_def)
      moreover from assms(1,2) md
      have "last_message_content (PDict d) = (if v = PNone then None else Some v)"
        by (simp add: last_message_content_def)
      ultimately show ?thesis
        by simp
    qed
  qed
qed

lemma detect_str_from_input_cases:
  assumes "detect_str_from_input rt x = Inr t"
  shows "t = (case last_message_content x of
                Some v \<Rightarrow> py_str rt v
              | None \<Rightarrow> py_str rt x)"
proof (cases "\<exists>d msgs. x = PDict d \<and> map_of d ''messages'' = Some (PList msgs) \<and> msgs \<noteq> []")
  case True
  with assms show ?thesis
    using detect_str_from_input_messages by blast
next
  case False
  then have "last_message_content x = None"
    by (auto simp: last_message_content_def split: pyval.splits option.splits)
  moreover from False assms have "t = py_str rt x"
    by (auto simp: detect_str_from_input_def split: pyval.splits option.splits if_splits)
  ultimately show ?thesis
    by simp
qed

lemma extract_data_from_input_PStr:
  "extract_data_from_input rt (PStr s) PNone f = Inr (PStr s, PStr s)"
  by (simp add: extract_data_from_input_def raw_override_PNone Let_def)

lemma extract_data_from_input_content:
  assumes "extract_data_from_input rt x raw None = Inr (cs, st)"
  shows "(\<exists>s. x = PStr s \<and> cs = x) \<or> detect_str_from_input rt x = Inr cs"
proof -
  from assms obtain r
    where r: "(case x of
                 PStr s \<Rightarrow> Inr (x, x)
               | _ \<Rightarrow>
                   (case detect_str_from_input rt x of
                      Inl e \<Rightarrow> Inl e
                    | Inr t \<Rightarrow>
                        (case to_raw_log rt x of
                           Inl e \<Rightarrow> Inl e
                         | Inr l \<Rightarrow> Inr (t, l)))) = Inr r"
      and o: "raw_override rt raw r = Inr (cs, st)"
    by (auto simp: extract_data_from_input_def Let_def split: sum.splits)
  from raw_override_fst [OF o] have cs: "fst r = cs"
    by simp
  from r cs show ?thesis
    by (cases x) (auto split: sum.splits)
qed

lemma detect_str_from_input_not_dict:
  assumes "\<forall>d. x \<noteq> PDict d"
  shows "detect_str_from_input rt x = Inr (py_str rt x)"
  using assms by (cases x) (simp_all add: detect_str_from_input_def)

lemma detect_str_from_input_well_formed:
  assumes "\<forall>msgs. map_of d ''messages'' = Some (PList msgs) \<and> msgs \<noteq> []
             \<longrightarrow> (\<exists>md. last msgs = PDict md)"
  shows "detect_str_from_input rt (PDict d) =
           Inr (case last_message_content (PDict d) of
                  Some v \<Rightarrow> py_str rt v
                | None \<Rightarrow> py_str rt (PDict d))"
proof -
  have "\<exists>t. detect_str_from_input rt (PDict d) = Inr t"
  proof (cases "\<exists>msgs. map_of d ''messages'' = Some (PList msgs) \<and> msgs \<noteq> []")
    case True
    then obtain msgs where msgs: "map_of d ''messages'' = Some (PList msgs)" "msgs \<noteq> []"
      by blast
    with assms obtain md where md: "last msgs = PDict md"
      by blast
    show ?thesis
    proof (cases "map_of md ''content''")
      case None
      with msgs md show ?thesis
        by (simp add: detect_str_from_input_def py_contains_def)
    next
      case (Some v)
      with msgs md show ?thesis
        by (cases v) (simp_all add: detect_str_from_input_def py_contains_def method_get_def)
    qed
  next
    case False
    then show ?thesis
      by (auto simp: detect_str_from_input_def split: option.splits pyval.splits)
  qed
  then obtain t where t: "detect_str_from_input rt (PDict d) = Inr t"
    by blast
  from detect_str_from_input_cases [OF t] t show ?thesis
    by simp
qed

lemma extract_data_from_input_raw:
  "extract_data_from_input rt x raw f =
     (case extract_data_from_input rt x PNone f of
        Inl e \<Rightarrow> Inl e
      | Inr r \<Rightarrow> raw_override rt raw r)"
  by (simp add: extract_data_from_input_def raw_override_PNone Let_def split: sum.splits)

lemma extract_data_from_input_no_raw:
  assumes "\<forall>s. x \<noteq> PStr s"
  shows "extract_data_from_input rt x PNone None =
           (case detect_str_from_input rt x of
              Inl e \<Rightarrow> Inl e
            | Inr t \<Rightarrow> (case to_raw_log rt x of Inl e \<Rightarrow> Inl e | Inr l \<Rightarrow> Inr (t, l)))"
  using assms
  by (cases x)
    (simp_all add: extract_data_from_input_def raw_override_PNone Let_def split: sum.splits)

text \<open>
  Claim C5 says that for every input of a supported shape \<^verbatim>\<open>extract_data_from_input\<close>
  returns a \<^verbatim>\<open>content_str\<close>, the stringified input when no recognized shape matches.
  On a plain object of a class the code does not know, one of the shapes of a raw
  record, it returns nothing: the object is not serializable, \<^verbatim>\<open>convert_to_dict\<close>
  raises NotImplementedError, and no string is given back.
\<close>

theorem extract_data_from_input_raises:
  "extract_data_from_input example_runtime (PObj ''Foo'' []) PNone None = Inl NotImplementedError"
  by (simp add: extract_data_from_input_no_raw detect_str_from_input_not_dict to_raw_log_PObj)

text \<open>
  Claim C5, as amended. On a string \<open>s\<close> and no raw input,
  \<^verbatim>\<open>extract_data_from_input\<close> returns \<open>(s, s)\<close>. Whatever the input and the raw input,
  a \<^verbatim>\<open>content_str\<close> it returns is a string, never \<open>None\<close>: the string form of the
  content of the last message when the input has the recognized shape, and the
  string form of the whole input otherwise. With no raw input it returns
  \<^item> on a mapping, unless \<^verbatim>\<open>messages\<close> is a non-empty list whose last element is not
    a mapping: that \<^verbatim>\<open>content_str\<close>, and the mapping itself when it is serializable,
    otherwise the mapping without its non-serializable fields;
  \<^item> on a structured record: the stringified record and the field mapping without
    its non-serializable fields;
  \<^item> on a byte sequence whose text is a JSON object: the stringified bytes and that
    object without its non-serializable fields.

  It raises NotImplementedError on a plain object of another class,
  UnicodeDecodeError on bytes that do not decode and JSONDecodeError on bytes whose
  text is not JSON. A raw input never turns an exception into a result; when the
  call without it returns, the call with it returns the same \<^verbatim>\<open>content_str\<close> with a
  serializable raw input, a mapping or a structured record, and raises on a plain
  object.
\<close>

theorem extract_data_from_input_content_str:
  "extract_data_from_input rt (PStr s) PNone None = Inr (PStr s, PStr s)
   \<and> (\<forall>cs st. extract_data_from_input rt x raw None = Inr (cs, st) \<longrightarrow>
         (\<exists>t. cs = PStr t)
         \<and> cs = (case last_message_content x of
                   Some v \<Rightarrow> py_str rt v
                 | None \<Rightarrow> py_str rt x))
   \<and> ((\<forall>msgs. map_of d ''messages'' = Some (PList msgs) \<and> msgs \<noteq> []
            \<longrightarrow> (\<exists>md. last msgs = PDict md)) \<longrightarrow>
         extract_data_from_input rt (PDict d) PNone None =
           Inr ((case last_message_content (PDict d) of
                   Some v \<Rightarrow> py_str rt v
                 | None \<Rightarrow> py_str rt (PDict d)),
                if is_jsonable (PDict d) then PDict d
                else PDict (filter (\<lambda>(k, v). is_jsonable v) d)))
   \<and> extract_data_from_input rt (PModel c fs) PNone None =
         Inr (py_str rt (PModel c fs),
              PDict (filter (\<lambda>(k, v). is_jsonable v) (map (\<lambda>(k, v). (k, dump v)) fs)))
   \<and> extract_data_from_input rt (PObj c fs) PNone None = Inl NotImplementedError
   \<and> (bytes_decode rt b = None \<longrightarrow>
         extract_data_from_input rt (PBytes b) PNone None = Inl UnicodeDecodeError)
   \<and> (\<forall>s. bytes_decode rt b = Some s \<and> json_loads rt s = None \<longrightarrow>
         extract_data_from_input rt (PBytes b) PNone None = Inl JSONDecodeError)
   \<and> (\<forall>s m. bytes_decode rt b = Some s \<and> json_loads rt s = Some (PDict m) \<longrightarrow>
         extract_data_from_input rt (PBytes b) PNone None =
           Inr (py_str rt (PBytes b), PDict (filter (\<lambda>(k, v). is_jsonable v) m)))
   \<and> (\<forall>e. extract_data_from_input rt x PNone None = Inl e \<longrightarrow>
         extract_data_from_input rt x raw None = Inl e)
   \<and> (\<forall>r. extract_data_from_input rt x PNone None = Inr r \<longrightarrow>
         (is_jsonable raw \<and> raw \<noteq> PNone \<longrightarrow>
            extract_data_from_input rt x raw None = Inr (fst r, raw))
         \<and> (\<forall>m. raw = PDict m \<longrightarrow>
               extract_data_from_input rt x raw None =
                 Inr (fst r, if is_jsonable raw then raw
                             else PDict (filter (\<lambda>(k, v). is_jsonable v) m)))
         \<and> (\<forall>c fs. raw = PModel c fs \<longrightarrow>
               extract_data_from_input rt x raw None =
                 Inr (fst r, PDict (filter (\<lambda>(k, v). is_jsonable v)
                                      (map (\<lambda>(k, v). (k, dump v)) fs))))
         \<and> (\<forall>c fs. raw = PObj c fs \<longrightarrow>
               extract_data_from_input rt x raw None = Inl NotImplementedError))"
proof -
  have str: "extract_data_from_input rt (PStr s) PNone None = Inr (PStr s, PStr s)"
    by (rule extract_data_from_input_PStr)
  have content: "\<forall>cs st. extract_data_from_input rt x raw None = Inr (cs, st) \<longrightarrow>
         (\<exists>t. cs = PStr t)
         \<and> cs = (case last_message_content x of
                   Some v \<Rightarrow> py_str rt v
                 | None \<Rightarrow> py_str rt x)"
  proof (intro allI impI)
    fix cs st
    assume a: "extract_data_from_input rt x raw None = Inr (cs, st)"
    from extract_data_from_input_content [OF a]
    have eq: "cs = (case last_message_content x of
                      Some v \<Rightarrow> py_str rt v
                    | None \<Rightarrow> py_str rt x)"
    proof
      assume "\<exists>s. x = PStr s \<and> cs = x"
      then show ?thesis
        by (auto simp: last_message_content_def py_str_PStr)
    next
      assume "detect_str_from_input rt x = Inr cs"
      then show ?thesis
        by (rule detect_str_from_input_cases)
    qed
    moreover have "\<exists>t. cs = PStr t"
      using eq py_str_is_str [of rt] by (cases "last_message_content x") auto
    ultimately show "(\<exists>t. cs = PStr t)
         \<and> cs = (case last_message_content x of
                   Some v \<Rightarrow> py_str rt v
                 | None \<Rightarrow> py_str rt x)"
      by blast
  qed
  have mapping: "(\<forall>msgs. map_of d ''messages'' = Some (PList msgs) \<and> msgs \<noteq> []
            \<longrightarrow> (\<exists>md. last msgs = PDict md)) \<longrightarrow>
         extract_data_from_input rt (PDict d) PNone None =
           Inr ((case last_message_content (PDict d) of
                   Some v \<Rightarrow> py_str rt v
                 | None \<Rightarrow> py_str rt (PDict d)),
                if is_jsonable (PDict d) then PDict d
                else PDict (filter (\<lambda>(k, v). is_jsonable v) d))"
  proof
    assume "\<forall>msgs. map_of d ''messages'' = Some (PList msgs) \<and> msgs \<noteq> []
              \<longrightarrow> (\<exists>md. last msgs = PDict md)"
    from detect_str_from_input_well_formed [OF this, of rt]
    show "extract_data_from_input rt (PDict d) PNone None =
           Inr ((case last_message_content (PDict d) of
                   Some v \<Rightarrow> py_str rt v
                 | None \<Rightarrow> py_str rt (PDict d)),
                if is_jsonable (PDict d) then PDict d
                else PDict (filter (\<lambda>(k, v). is_jsonable v) d))"
      by (simp add: extract_data_from_input_no_raw to_raw_log_PDict)
  qed
  have shaped:
    "extract_data_from_input rt (PModel c fs) PNone None =
         Inr (py_str rt (PModel c fs),
              PDict (filter (\<lambda>(k, v). is_jsonable v) (map (\<lambda>(k, v). (k, dump v)) fs)))"
    "extract_data_from_input rt (PObj c fs) PNone None = Inl NotImplementedError"
    "bytes_decode rt b = None \<longrightarrow>
         extract_data_from_input rt (PBytes b) PNone None = Inl UnicodeDecodeError"
    "\<forall>s. bytes_decode rt b = Some s \<and> json_loads rt s = None \<longrightarrow>
         extract_data_from_input rt (PBytes b) PNone None = Inl JSONDecodeError"
    "\<forall>s m. bytes_decode rt b = Some s \<and> json_loads rt s = Some (PDict m) \<longrightarrow>
         extract_data_from_input rt (PBytes b) PNone None =
           Inr (py_str rt (PBytes b), PDict (filter (\<lambda>(k, v). is_jsonable v) m))"
    by (simp_all add: extract_data_from_input_no_raw detect_str_from_input_not_dict
        to_raw_log_PModel to_raw_log_PObj to_raw_log_PBytes)
  have raw_keeps: "\<forall>e. extract_data_from_input rt x PNone None = Inl e \<longrightarrow>
         extract_data_from_input rt x raw None = Inl e"
    using extract_data_from_input_raw [of rt x raw None] by simp
  have shapes: "\<forall>r. extract_data_from_input rt x PNone None = Inr r \<longrightarrow>
         (is_jsonable raw \<and> raw \<noteq> PNone \<longrightarrow>
            extract_data_from_input rt x raw None = Inr (fst r, raw))
         \<and> (\<forall>m. raw = PDict m \<longrightarrow>
               extract_data_from_input rt x raw None =
                 Inr (fst r, if is_jsonable raw then raw
                             else PDict (filter (\<lambda>(k, v). is_jsonable v) m)))
         \<and> (\<forall>c fs. raw = PModel c fs \<longrightarrow>
               extract_data_from_input rt x raw None =
                 Inr (fst r, PDict (filter (\<lambda>(k, v). is_jsonable v)
                                      (map (\<lambda>(k, v). (k, dump v)) fs))))
         \<and> (\<forall>c fs. raw = PObj c fs \<longrightarrow>
               extract_data_from_input rt x raw None = Inl NotImplementedError)"
  proof (intro allI impI)
    fix r
    assume "extract_data_from_input rt x PNone None = Inr r"
    then have eq: "extract_data_from_input rt x raw None = raw_override rt raw r"
      using extract_data_from_input_raw [of rt x raw None] by simp
    show "(is_jsonable raw \<and> raw \<noteq> PNone \<longrightarrow>
            extract_data_from_input rt x raw None = Inr (fst r, raw))
         \<and> (\<forall>m. raw = PDict m \<longrightarrow>
               extract_data_from_input rt x raw None =
                 Inr (fst r, if is_jsonable raw then raw
                             else PDict (filter (\<lambda>(k, v). is_jsonable v) m)))
         \<and> (\<forall>c fs. raw = PModel c fs \<longrightarrow>
               extract_data_from_input rt x raw None =
                 Inr (fst r, PDict (filter (\<lambda>(k, v). is_jsonable v)
                                      (map (\<lambda>(k, v). (k, dump v)) fs))))
         \<and> (\<forall>c fs. raw = PObj c fs \<longrightarrow>
               extract_data_from_input rt x raw None = Inl NotImplementedError)"
      unfolding eq using raw_override_shapes [of raw rt r] by blast
  qed
  show ?thesis
    by (intro conjI) (rule str content mapping shaped raw_keeps shapes)+
qed

text \<open>
  The amended claim at the string \<^verbatim>\<open>hello\<close>, at an OpenAI input whose last message
  has the content \<^verbatim>\<open>hi\<close>, at a mapping without \<^verbatim>\<open>messages\<close>, at a plain object, at the
  bytes of the texts \<^verbatim>\<open>{}\<close> and \<^verbatim>\<open>hello\<close>, and at a string with a raw input.
\<close>

theorem extract_data_from_input_content_str_witness:
  "(\<forall>rt. extract_data_from_input rt (PStr ''hello'') PNone None
          = Inr (PStr ''hello'', PStr ''hello''))
   \<and> (\<forall>rt. extract_data_from_input rt
              (PDict [(''messages'', PList [PDict [(''content'', PStr ''hi'')]])]) PNone None
          = Inr (PStr ''hi'', PDict [(''messages'', PList [PDict [(''content'', PStr ''hi'')]])]))
   \<and> (\<forall>rt. extract_data_from_input rt (PDict [(''prompt'', PStr ''hi'')]) PNone None
          = Inr (py_str rt (PDict [(''prompt'', PStr ''hi'')]), PDict [(''prompt'', PStr ''hi'')]))
   \<and> (\<forall>rt. extract_data_from_input rt (PObj ''Point'' [(''x'', PInt 1)]) PNone None
          = Inl NotImplementedError)
   \<and> extract_data_from_input example_runtime (PBytes ''{}'') PNone None
       = Inr (py_str example_runtime (PBytes ''{}''), PDict [])
   \<and> extract_data_from_input example_runtime (PBytes ''hello'') PNone None
       = Inl JSONDecodeError
   \<and> (\<forall>rt. extract_data_from_input rt (PStr ''hi'') (PDict [(''n'', PInt 1)]) None
          = Inr (PStr ''hi'', PDict [(''n'', PInt 1)]))"
proof (intro conjI allI)
  fix rt
  show "extract_data_from_input rt (PStr ''hello'') PNone None
        = Inr (PStr ''hello'', PStr ''hello'')"
    using extract_data_from_input_content_str [where rt = rt and s = "''hello''"] by blast
next
  fix rt
  show "extract_data_from_input rt
          (PDict [(''messages'', PList [PDict [(''content'', PStr ''hi'')]])]) PNone None
        = Inr (PStr ''hi'', PDict [(''messages'', PList [PDict [(''content'', PStr ''hi'')]])])"
    using extract_data_from_input_content_str
      [where rt = rt and d = "[(''messages'', PList [PDict [(''content'', PStr ''hi'')]])]"]
    by (simp add: last_message_content_def py_str_PStr)
next
  fix rt
  show "extract_data_from_input rt (PDict [(''prompt'', PStr ''hi'')]) PNone None
        = Inr (py_str rt (PDict [(''prompt'', PStr ''hi'')]), PDict [(''prompt'', PStr ''hi'')])"
    using extract_data_from_input_content_str [where rt = rt and d = "[(''prompt'', PStr ''hi'')]"]
    by (simp add: last_message_content_def)
next
  fix rt
  show "extract_data_from_input rt (PObj ''Point'' [(''x'', PInt 1)]) PNone None
        = Inl NotImplementedError"
    using extract_data_from_input_content_str
      [where rt = rt and c = "''Point''" and fs = "[(''x'', PInt 1)]"]
    by blast
next
  have loads: "bytes_decode example_runtime ''{}'' = Some ''{}''"
    "json_loads example_runtime ''{}'' = Some (PDict [])"
    by (simp_all add: example_runtime_def)
  then show "extract_data_from_input example_runtime (PBytes ''{}'') PNone None
             = Inr (py_str example_runtime (PBytes ''{}''), PDict [])"
    using extract_data_from_input_content_str [where rt = example_runtime and b = "''{}''"]
    by simp
next
  have loads: "bytes_decode example_runtime ''hello'' = Some ''hello''"
    "json_loads example_runtime ''hello'' = None"
    by (simp_all add: example_runtime_def example_usage_text_def)
  then show "extract_data_from_input example_runtime (PBytes ''hello'') PNone None
             = Inl JSONDecodeError"
    using extract_data_from_input_content_str [where rt = example_runtime and b = "''hello''"]
    by simp
next
  fix rt
  show "extract_data_from_input rt (PStr ''hi'') (PDict [(''n'', PInt 1)]) None
        = Inr (PStr ''hi'', PDict [(''n'', PInt 1)])"
    using extract_data_from_input_content_str
      [where rt = rt and s = "''hi''" and x = "PStr ''hi''" and raw = "PDict [(''n'', PInt 1)]"]
    by simp
qed

section \<open>C6: \<^verbatim>\<open>detect_usage_from_input_output\<close>\<close>

lemma example_usage_loads:
  "json_loads example_runtime example_usage_text
     = Some (PDict [(''usage'', PDict [(''total_tokens'', PInt 42)])])"
  by (simp add: example_runtime_def example_usage_text_def)

text \<open>
  Claim C6 says that \<^verbatim>\<open>detect_usage_from_input_output\<close> returns the \<^verbatim>\<open>usage\<close> field
  whenever the output, after coercion to a mapping, has one, for every output. The
  coercion of the specification parses a string as JSON. The output here is the
  JSON text of an object with a \<^verbatim>\<open>usage\<close> field: coerced, it has the field, and the
  specification returns it; the code does not parse a string and returns \<open>None\<close>.
\<close>

theorem detect_usage_string_output:
  "convert_to_dict example_runtime (PStr example_usage_text)
     = Inr (PDict [(''usage'', PDict [(''total_tokens'', PInt 42)])])
   \<and> detect_usage_spec example_runtime PNone (PStr example_usage_text)
       = PDict [(''total_tokens'', PInt 42)]
   \<and> detect_usage_from_input_output PNone (PStr example_usage_text) = PNone"
  by (simp add: detect_usage_spec_def usage_rule_def convert_to_dict_def example_usage_loads
      detect_usage_from_input_output_def)

text \<open>
  Claim C6, as amended. For every input, \<^verbatim>\<open>detect_usage_from_input_output\<close> looks at
  the output only when it is a mapping or a structured record, the latter through
  its field mapping. It then returns the \<^verbatim>\<open>usage\<close> field when there is one; otherwise
  \<^verbatim>\<open>{completion_tokens: 1}\<close> when the \<^verbatim>\<open>object\<close> field is the string
  \<^verbatim>\<open>chat.completion.chunk\<close>; otherwise \<open>None\<close>. On these outputs it returns what the
  specification returns, whose coercion is the identity on a mapping and the field
  mapping of a record. On every other output, a string or a byte sequence of JSON
  text included, it returns \<open>None\<close>.
\<close>

theorem detect_usage_cases:
  "detect_usage_from_input_output inp (PDict d) =
     (case map_of d ''usage'' of
        Some usage \<Rightarrow> usage
      | None \<Rightarrow>
          if map_of d ''object'' = Some (PStr ''chat.completion.chunk'')
          then PDict [(''completion_tokens'', PInt 1)]
          else PNone)
   \<and> detect_usage_from_input_output inp (PModel c fs) =
       detect_usage_from_input_output inp (PDict (map (\<lambda>(k, v). (k, dump v)) fs))
   \<and> detect_usage_from_input_output inp (PDict d) = detect_usage_spec rt inp (PDict d)
   \<and> detect_usage_from_input_output inp (PModel c fs) = detect_usage_spec rt inp (PModel c fs)
   \<and> ((\<forall>m. x \<noteq> PDict m) \<and> (\<forall>n kvs. x \<noteq> PModel n kvs) \<longrightarrow>
         detect_usage_from_input_output inp x = PNone)"
proof (intro conjI impI)
  show "detect_usage_from_input_output inp (PDict d) =
     (case map_of d ''usage'' of
        Some usage \<Rightarrow> usage
      | None \<Rightarrow>
          if map_of d ''object'' = Some (PStr ''chat.completion.chunk'')
          then PDict [(''completion_tokens'', PInt 1)]
          else PNone)"
    by (simp add: detect_usage_from_input_output_def)
next
  show "detect_usage_from_input_output inp (PModel c fs) =
       detect_usage_from_input_output inp (PDict (map (\<lambda>(k, v). (k, dump v)) fs))"
    by (simp add: detect_usage_from_input_output_def model_dump_def)
next
  show "detect_usage_from_input_output inp (PDict d) = detect_usage_spec rt inp (PDict d)"
    by (simp add: detect_usage_from_input_output_def detect_usage_spec_def usage_rule_def
        convert_to_dict_def)
next
  show "detect_usage_from_input_output inp (PModel c fs) = detect_usage_spec rt inp (PModel c fs)"
    by (simp add: detect_usage_from_input_output_def detect_usage_spec_def usage_rule_def
        convert_to_dict_def model_dump_def)
next
  assume "(\<forall>m. x \<noteq> PDict m) \<and> (\<forall>n kvs. x \<noteq> PModel n kvs)"
  then show "detect_usage_from_input_output inp x = PNone"
    by (cases x) (simp_all add: detect_usage_from_input_output_def)
qed

text \<open>
  The amended claim at a completion with a \<^verbatim>\<open>usage\<close> field, at a streamed chunk, at a
  chunk that is a structured record, and at a string and a byte sequence.
\<close>

theorem detect_usage_cases_witness:
  "detect_usage_from_input_output PNone example_completion = PDict [(''total_tokens'', PInt 42)]
   \<and> detect_usage_from_input_output PNone (example_chunk (PStr ''tok''))
       = PDict [(''completion_tokens'', PInt 1)]
   \<and> detect_usage_from_input_output PNone
         (PModel ''ChatCompletionChunk'' [(''object'', PStr ''chat.completion.chunk'')])
       = PDict [(''completion_tokens'', PInt 1)]
   \<and> detect_usage_from_input_output PNone (PStr ''{}'') = PNone
   \<and> detect_usage_from_input_output PNone (PBytes ''{}'') = PNone"
proof (intro conjI)
  show "detect_usage_from_input_output PNone example_completion
        = PDict [(''total_tokens'', PInt 42)]"
    using detect_usage_cases
      [where inp = PNone
         and d = "[(''choices'', PList [PDict [(''message'', PDict [(''content'', PStr ''X'')])]]),
                   (''usage'', PDict [(''total_tokens'', PInt 42)]),
                   (''model'', PStr ''gpt-x'')]"]
    by (simp add: example_completion_def)
next
  show "detect_usage_from_input_output PNone (example_chunk (PStr ''tok''))
        = PDict [(''completion_tokens'', PInt 1)]"
    using detect_usage_cases
      [where inp = PNone
         and d = "[(''choices'', PList [PDict [(''delta'', PDict [(''content'', PStr ''tok'')])]]),
                   (''object'', PStr ''chat.completion.chunk'')]"]
    by (simp add: example_chunk_def)
next
  have "detect_usage_from_input_output PNone
          (PDict (map (\<lambda>(k, v). (k, dump v)) [(''object'', PStr ''chat.completion.chunk'')]))
        = PDict [(''completion_tokens'', PInt 1)]"
    using detect_usage_cases
      [where inp = PNone and d = "[(''object'', PStr ''chat.completion.chunk'')]"]
    by simp
  then show "detect_usage_from_input_output PNone
          (PModel ''ChatCompletionChunk'' [(''object'', PStr ''chat.completion.chunk'')])
        = PDict [(''completion_tokens'', PInt 1)]"
    using detect_usage_cases
      [where inp = PNone and c = "''ChatCompletionChunk''"
         and fs = "[(''object'', PStr ''chat.completion.chunk'')]"]
    by simp
next
  show "detect_usage_from_input_output PNone (PStr ''{}'') = PNone"
    using detect_usage_cases [where inp = PNone and x = "PStr ''{}''"]
    by simp
next
  show "detect_usage_from_input_output PNone (PBytes ''{}'') = PNone"
    using detect_usage_cases [where inp = PNone and x = "PBytes ''{}''"]
    by simp
qed

section \<open>C10: \<^verbatim>\<open>Job.run\<close>\<close>

lemma call_job_function_job_results:
  "call_job_function (j\<lparr>job_results := x\<rparr>) m = call_job_function j m"
  by (cases "job_function j"; cases "params j") (simp_all add: call_job_function_def)

lemma job_run_Inr:
  assumes "call_job_function j m = Inr r"
  shows "job_run j m = (Inr r, j\<lparr>job_results := (job_results j)(msg_id m \<mapsto> r)\<rparr>)"
  using assms by (simp add: job_run_def)

lemma example_calls:
  "call_job_function example_job m = Inr (length (msg_content m))"
  "call_job_function failing_job m = Inl (Raised ''RuntimeError'')"
  by (simp_all add: call_job_function_def example_job_def failing_job_def
      length_function_def failing_function_def)

text \<open>
  Claim C10. \<^verbatim>\<open>Job.run\<close> raises an exception exactly when the call of the bound
  function on the message, \<^verbatim>\<open>job_function(message, **params)\<close>, raises it. The job is
  then as it was before: \<^verbatim>\<open>job_results\<close> has no new key and no changed entry. When
  the call returns \<open>r\<close>, \<^verbatim>\<open>Job.run\<close> returns \<open>r\<close> and the job differs only in that
  \<^verbatim>\<open>job_results\<close> binds the id of the message to \<open>r\<close>.
\<close>

theorem job_run_atomic:
  "(\<forall>e. (fst (job_run j m) = Inl e) = (call_job_function j m = Inl e))
   \<and> (\<forall>e. call_job_function j m = Inl e \<longrightarrow> snd (job_run j m) = j)
   \<and> (\<forall>r. call_job_function j m = Inr r \<longrightarrow>
          job_run j m = (Inr r, j\<lparr>job_results := (job_results j)(msg_id m \<mapsto> r)\<rparr>))"
  by (auto simp: job_run_def split: sum.splits)

text \<open>
  The claim at a job whose function raises and at a job that returns the length of
  the content of the message.
\<close>

theorem job_run_atomic_witness:
  "job_run failing_job example_message1 = (Inl (Raised ''RuntimeError''), failing_job)
   \<and> job_run example_job example_message1
       = (Inr 2, example_job\<lparr>job_results := (job_results example_job)(''m1'' \<mapsto> 2)\<rparr>)"
proof (intro conjI)
  have "fst (job_run failing_job example_message1) = Inl (Raised ''RuntimeError'')"
    "snd (job_run failing_job example_message1) = failing_job"
    using job_run_atomic [of failing_job example_message1]
    by (simp_all add: example_calls)
  then show "job_run failing_job example_message1 = (Inl (Raised ''RuntimeError''), failing_job)"
    by (simp add: prod_eq_iff)
next
  show "job_run example_job example_message1
        = (Inr 2, example_job\<lparr>job_results := (job_results example_job)(''m1'' \<mapsto> 2)\<rparr>)"
    using job_run_atomic [of example_job example_message1]
    by (simp add: example_calls example_message1_def numeral_2_eq_2)
qed

section \<open>C7 and C8: \<^verbatim>\<open>Workload.run\<close>\<close>

lemma dispatch_sequential_returns:
  assumes "\<forall>m \<in> set ms. \<exists>r. call_job_function j m = Inr r"
  shows "\<exists>res. dispatch_sequential j ms = (None, j\<lparr>job_results := res\<rparr>)
           \<and> (\<forall>k. k \<notin> msg_id ` set ms \<longrightarrow> res k = job_results j k)
           \<and> (distinct (map msg_id ms) \<longrightarrow>
                (\<forall>m \<in> set ms. \<exists>r. res (msg_id m) = Some r \<and> call_job_function j m = Inr r))"
  using assms
proof (induction ms arbitrary: j)
  case Nil
  show ?case
    by (rule exI [of _ "job_results j"]) simp
next
  case (Cons m ms)
  from Cons.prems obtain r where r: "call_job_function j m = Inr r"
    by auto
  define j1 where "j1 = j\<lparr>job_results := (job_results j)(msg_id m \<mapsto> r)\<rparr>"
  have call1: "call_job_function j1 m' = call_job_function j m'" for m'
    by (simp add: j1_def call_job_function_job_results)
  from Cons.prems have "\<forall>m' \<in> set ms. \<exists>r. call_job_function j1 m' = Inr r"
    by (simp add: call1)
  from Cons.IH [OF this] obtain res
    where d: "dispatch_sequential j1 ms = (None, j1\<lparr>job_results := res\<rparr>)"
      and keep: "\<forall>k. k \<notin> msg_id ` set ms \<longrightarrow> res k = job_results j1 k"
      and new: "distinct (map msg_id ms) \<longrightarrow>
                  (\<forall>m' \<in> set ms. \<exists>r. res (msg_id m') = Some r \<and> call_job_function j1 m' = Inr r)"
    by blast
  have step: "dispatch_sequential j (m # ms) = (None, j\<lparr>job_results := res\<rparr>)"
    using d by (simp add: job_run_Inr [OF r] j1_def)
  have keep': "\<forall>k. k \<notin> msg_id ` set (m # ms) \<longrightarrow> res k = job_results j k"
    using keep by (simp add: j1_def)
  have new': "distinct (map msg_id (m # ms)) \<longrightarrow>
                (\<forall>m' \<in> set (m # ms). \<exists>r. res (msg_id m') = Some r \<and> call_job_function j m' = Inr r)"
  proof (intro impI ballI)
    fix m'
    assume dist: "distinct (map msg_id (m # ms))" and mem: "m' \<in> set (m # ms)"
    show "\<exists>r. res (msg_id m') = Some r \<and> call_job_function j m' = Inr r"
    proof (cases "m' \<in> set ms")
      case True
      with dist new call1 show ?thesis
        by auto
    next
      case False
      with mem have eq: "m' = m"
        by simp
      from dist have "msg_id m \<notin> msg_id ` set ms"
        by simp
      with keep have "res (msg_id m) = Some r"
        by (simp add: j1_def)
      with r eq show ?thesis
        by simp
    qed
  qed
  from step keep' new' show ?case
    by blast
qed

lemma collect_single_job:
  assumes "\<forall>m \<in> set ms. job_results j (msg_id m) \<noteq> None"
  shows "\<exists>res. collect [j] ms acc = Inr res
           \<and> (\<forall>m \<in> set ms. res (msg_id m) = Some (Map.empty(job_id j := job_results j (msg_id m))))
           \<and> (\<forall>k. k \<notin> msg_id ` set ms \<longrightarrow> res k = acc k)"
  using assms
proof (induction ms arbitrary: acc)
  case Nil
  then show ?case by simp
next
  case (Cons m ms)
  from Cons.prems obtain r where r: "job_results j (msg_id m) = Some r"
    by auto
  define acc1 where "acc1 = acc(msg_id m \<mapsto> Map.empty(job_id j \<mapsto> r))"
  from Cons.prems have "\<forall>m \<in> set ms. job_results j (msg_id m) \<noteq> None"
    by simp
  from Cons.IH [OF this, of acc1] obtain res
    where c: "collect [j] ms acc1 = Inr res"
      and rows: "\<forall>m' \<in> set ms. res (msg_id m') = Some (Map.empty(job_id j := job_results j (msg_id m')))"
      and keep: "\<forall>k. k \<notin> msg_id ` set ms \<longrightarrow> res k = acc1 k"
    by blast
  have step: "collect [j] (m # ms) acc = Inr res"
    using c r by (simp add: acc1_def)
  have row_m: "res (msg_id m) = Some (Map.empty(job_id j := job_results j (msg_id m)))"
  proof (cases "msg_id m \<in> msg_id ` set ms")
    case True
    then obtain m' where "m' \<in> set ms" "msg_id m' = msg_id m"
      by auto
    with rows show ?thesis
      by force
  next
    case False
    with keep r show ?thesis
      by (simp add: acc1_def)
  qed
  have keep': "\<forall>k. k \<notin> msg_id ` set (m # ms) \<longrightarrow> res k = acc k"
    using keep by (simp add: acc1_def)
  from step rows row_m keep' show ?case
    by auto
qed

text \<open>
  Claim C7. The workload has one job \<open>j\<close>, the messages have distinct ids, the mode is
  sequential, and \<^verbatim>\<open>Job.run\<close> alone returns on each message (its function raises on
  none of them). Then \<^verbatim>\<open>Workload.run\<close> returns a table, which it also stores in the
  workload, and for each message the entry \<^verbatim>\<open>results[msg.id][job.job_id]\<close> is the
  value that \<^verbatim>\<open>Job.run\<close> returns on that message.
\<close>

theorem workload_run_single_job_sequential:
  assumes "distinct (map msg_id ms)"
    and "\<forall>m \<in> set ms. \<exists>r. call_job_function j m = Inr r"
  shows "\<exists>res w'. workload_run \<lparr>jobs = [j], results = old\<rparr> ms ''sequential'' = (Inr res, w')
           \<and> results w' = res
           \<and> (\<forall>m \<in> set ms. \<exists>row r. res (msg_id m) = Some row \<and> row (job_id j) = Some r
                  \<and> fst (job_run j m) = Inr r)"
proof -
  from dispatch_sequential_returns [OF assms(2)] assms(1) obtain jr
    where d: "dispatch_sequential j ms = (None, j\<lparr>job_results := jr\<rparr>)"
      and new: "\<forall>m \<in> set ms. \<exists>r. jr (msg_id m) = Some r \<and> call_job_function j m = Inr r"
    by blast
  define j' where "j' = j\<lparr>job_results := jr\<rparr>"
  from new have "\<forall>m \<in> set ms. job_results j' (msg_id m) \<noteq> None"
    by (auto simp: j'_def)
  from collect_single_job [OF this, of Map.empty] obtain res
    where c: "collect [j'] ms Map.empty = Inr res"
      and rows: "\<forall>m \<in> set ms. res (msg_id m) = Some (Map.empty(job_id j' := job_results j' (msg_id m)))"
    by blast
  have run: "workload_run \<lparr>jobs = [j], results = old\<rparr> ms ''sequential''
               = (Inr res, \<lparr>jobs = [j'], results = res\<rparr>)"
    using d c by (simp add: workload_run_def j'_def)
  have "\<exists>row r. res (msg_id m) = Some row \<and> row (job_id j) = Some r \<and> fst (job_run j m) = Inr r"
    if m: "m \<in> set ms" for m
  proof -
    from new m obtain r where r: "jr (msg_id m) = Some r" "call_job_function j m = Inr r"
      by blast
    from rows m r(1) have "res (msg_id m) = Some (Map.empty(job_id j \<mapsto> r))"
      by (simp add: j'_def)
    with r(2) show ?thesis
      by (simp add: job_run_Inr)
  qed
  with run show ?thesis
    by simp
qed

text \<open>
  The test of the specification: one job and two messages, in sequential mode. The
  job returns 2 on the first message and 5 on the second.
\<close>

theorem workload_run_single_job_sequential_witness:
  "\<exists>res w'. workload_run \<lparr>jobs = [example_job], results = Map.empty\<rparr>
               [example_message1, example_message2] ''sequential'' = (Inr res, w')
     \<and> (\<exists>row. res ''m1'' = Some row \<and> row ''count'' = Some 2)
     \<and> (\<exists>row. res ''m2'' = Some row \<and> row ''count'' = Some 5)"
proof -
  have ids: "distinct (map msg_id [example_message1, example_message2])"
    by (simp add: example_message1_def example_message2_def)
  have calls: "\<forall>m \<in> set [example_message1, example_message2].
                 \<exists>r. call_job_function example_job m = Inr r"
    by (simp add: example_calls)
  have runs: "fst (job_run example_job example_message1) = Inr 2"
    "fst (job_run example_job example_message2) = Inr 5"
    by (simp_all add: job_run_def example_calls example_message1_def example_message2_def)
  from workload_run_single_job_sequential [OF ids calls, of Map.empty] runs
  show ?thesis
    by (auto simp: example_message1_def example_message2_def example_job_def)
qed

text \<open>
  Claim C8. When the executor type is neither \<^verbatim>\<open>parallel\<close> nor \<^verbatim>\<open>sequential\<close> and the
  workload has a job, \<^verbatim>\<open>Workload.run\<close> raises NotImplementedError (the
  UnsupportedModeError of the specification), whatever the messages.
\<close>

theorem workload_run_unsupported_mode:
  assumes "executor_type \<noteq> ''parallel''" and "executor_type \<noteq> ''sequential''"
    and "jobs w \<noteq> []"
  shows "fst (workload_run w ms executor_type) = Inl NotImplementedError"
  using assms by (cases "jobs w") (simp_all add: workload_run_def)

text \<open>The claim at one job, one message and the executor type \<^verbatim>\<open>threads\<close>.\<close>

theorem workload_run_unsupported_mode_witness:
  "fst (workload_run \<lparr>jobs = [example_job], results = Map.empty\<rparr> [example_message1] ''threads'')
     = Inl NotImplementedError"
  using workload_run_unsupported_mode
    [of "''threads''" "\<lparr>jobs = [example_job], results = Map.empty\<rparr>" "[example_message1]"]
  by simp

section \<open>C9: \<^verbatim>\<open>Workload.from_config\<close>\<close>

lemma configured_name_Some:
  assumes "configured_name jc = Some n"
  shows "\<exists>kvs. jc = PDict kvs \<and> map_of kvs ''name'' = Some (PStr n)"
  using assms
  by (cases jc) (auto simp: configured_name_def split: option.splits pyval.splits)

lemma job_init_absent:
  assumes "job_library n = None"
  shows "job_init job_library (Data PNone) (PStr n) jid ps = Inl AttributeError"
  using assms by (simp add: job_init_def is_none_def)

lemma job_init_none:
  assumes "job_library n = Some (Data PNone)"
  shows "job_init job_library (Data PNone) (PStr n) jid ps = Inl AssertionError"
  using assms by (simp add: job_init_def is_none_def)

lemma job_init_bound:
  assumes "job_library n = Some a" and "a \<noteq> Data PNone"
  shows "\<exists>j. job_init job_library (Data PNone) (PStr n) (Some jid) ps = Inr j"
proof -
  from assms(2) have "\<not> is_none a"
    by (cases a) (auto simp: is_none_def split: pyval.splits)
  with assms(1) show ?thesis
    by (simp add: job_init_def is_none_def)
qed

lemma add_jobs_step:
  assumes "configured_name jc = Some n"
  shows "add_jobs job_library ((jid, jc) # rest) w =
           (case job_init job_library (Data PNone) (PStr n) (Some jid)
                   (case jc of PDict kvs \<Rightarrow>
                      (case map_of kvs ''params'' of Some v \<Rightarrow> v | None \<Rightarrow> PDict [])) of
              Inl e \<Rightarrow> Inl e
            | Inr j \<Rightarrow> add_jobs job_library rest (add_job w j))"
proof -
  from configured_name_Some [OF assms] obtain kvs
    where "jc = PDict kvs" "map_of kvs ''name'' = Some (PStr n)"
    by blast
  then show ?thesis
    by (simp add: subscript_def method_get_def)
qed

lemma add_jobs_absent:
  assumes "\<forall>(jid, jc) \<in> set its. configured_name jc \<noteq> None"
    and "\<exists>(jid, jc) \<in> set its. \<exists>n. configured_name jc = Some n \<and> job_library n = None"
  shows "(add_jobs job_library its w = Inl AttributeError
            \<or> add_jobs job_library its w = Inl AssertionError)
         \<and> ((\<forall>(jid, jc) \<in> set its. \<forall>n. configured_name jc = Some n
                 \<longrightarrow> job_library n \<noteq> Some (Data PNone))
              \<longrightarrow> add_jobs job_library its w = Inl AttributeError)"
  using assms
proof (induction its arbitrary: w)
  case Nil
  then show ?case by simp
next
  case (Cons it its)
  obtain jid jc where it: "it = (jid, jc)"
    by (cases it)
  from Cons.prems(1) it obtain n where n: "configured_name jc = Some n"
    by auto
  let ?ps = "case jc of PDict kvs \<Rightarrow>
               (case map_of kvs ''params'' of Some v \<Rightarrow> v | None \<Rightarrow> PDict [])"
  show ?case
  proof (cases "job_library n")
    case None
    have "add_jobs job_library ((jid, jc) # its) w = Inl AttributeError"
      using None by (subst add_jobs_step [OF n]) (simp add: job_init_absent)
    then show ?thesis
      by (simp only: it) simp
  next
    case (Some a)
    show ?thesis
    proof (cases "a = Data PNone")
      case True
      have "add_jobs job_library ((jid, jc) # its) w = Inl AssertionError"
        using Some True by (subst add_jobs_step [OF n]) (simp add: job_init_none)
      moreover from Some True n
      have "\<not> (\<forall>(jid, jc) \<in> set ((jid, jc) # its). \<forall>n. configured_name jc = Some n
                 \<longrightarrow> job_library n \<noteq> Some (Data PNone))"
        by auto
      ultimately show ?thesis
        by (simp only: it) simp
    next
      case False
      from Some False job_init_bound [of job_library n a jid ?ps] obtain j
        where j: "job_init job_library (Data PNone) (PStr n) (Some jid) ?ps = Inr j"
        by blast
      from Cons.prems it n Some
      have rest: "\<forall>(jid, jc) \<in> set its. configured_name jc \<noteq> None"
        "\<exists>(jid, jc) \<in> set its. \<exists>n. configured_name jc = Some n \<and> job_library n = None"
        by auto
      have step: "add_jobs job_library ((jid, jc) # its) w
                    = add_jobs job_library its (add_job w j)"
        by (subst add_jobs_step [OF n]) (simp add: j)
      have "(add_jobs job_library ((jid, jc) # its) w = Inl AttributeError
               \<or> add_jobs job_library ((jid, jc) # its) w = Inl AssertionError)
            \<and> ((\<forall>(jid, jc) \<in> set its. \<forall>n. configured_name jc = Some n
                    \<longrightarrow> job_library n \<noteq> Some (Data PNone))
                 \<longrightarrow> add_jobs job_library ((jid, jc) # its) w = Inl AttributeError)"
        unfolding step by (rule Cons.IH [OF rest])
      then show ?thesis
        by (simp only: it) auto
    qed
  qed
qed

text \<open>
  Claim C9 says that \<^verbatim>\<open>Workload.from_config\<close> fails whenever the name of a configured
  job is absent from the registry of named job functions. The code looks the name
  up with \<^verbatim>\<open>getattr\<close> among all the attributes of the module \<^verbatim>\<open>job_library\<close> and
  checks only that what it finds is not \<open>None\<close>. Every module has the attribute
  \<^verbatim>\<open>__name__\<close>, a string: it names no job function, and the configuration
  \<^verbatim>\<open>{jobs: {a: {name: __name__}}}\<close> gives a workload whose job holds that string.
\<close>

theorem from_config_accepts_module_name:
  "registered example_library ''__name__'' = False
   \<and> from_config example_library example_config_module_name
       = Inr \<lparr> jobs = [\<lparr> job_id = ''a'', params = PDict [],
                        job_function = Data (PStr ''phospho.lab.job_library''),
                        job_results = Map.empty \<rparr>],
              results = Map.empty \<rparr>"
  by (simp add: registered_def example_library_def example_config_module_name_def
      from_config_def subscript_def method_items_def method_get_def job_init_def is_none_def
      workload_init_def add_job_def)

text \<open>
  Claim C9, as amended. The configuration is a mapping whose \<^verbatim>\<open>jobs\<close> is a mapping from
  job ids to job mappings, each with a string under \<^verbatim>\<open>name\<close>. When one of these names
  is not an attribute of the job library, \<^verbatim>\<open>Workload.from_config\<close> fails: with
  AttributeError (the UnknownJobError of the specification) when the library binds no
  configured name to \<open>None\<close>, and with AttributeError or AssertionError otherwise (a
  job whose name is bound to \<open>None\<close> fails the assertion, and the first job that
  fails decides).
\<close>

theorem from_config_unknown_job:
  assumes "map_of cfg ''jobs'' = Some (PDict its)"
    and "\<forall>(jid, jc) \<in> set its. configured_name jc \<noteq> None"
    and "\<exists>(jid, jc) \<in> set its. \<exists>n. configured_name jc = Some n \<and> job_library n = None"
  shows "(from_config job_library (PDict cfg) = Inl AttributeError
            \<or> from_config job_library (PDict cfg) = Inl AssertionError)
         \<and> ((\<forall>(jid, jc) \<in> set its. \<forall>n. configured_name jc = Some n
                 \<longrightarrow> job_library n \<noteq> Some (Data PNone))
              \<longrightarrow> from_config job_library (PDict cfg) = Inl AttributeError)"
  using assms(1) add_jobs_absent [OF assms(2,3), of workload_init]
  by (simp add: from_config_def subscript_def method_items_def)

text \<open>
  The amended claim at a configuration of two jobs, the first with the name
  \<^verbatim>\<open>length\<close> of a function of the library and the second with the name \<^verbatim>\<open>nope\<close>, which
  the library does not have.
\<close>

theorem from_config_unknown_job_witness:
  "from_config example_library example_config = Inl AttributeError"
proof -
  let ?its = "[(''a'', PDict [(''name'', PStr ''length'')]),
               (''b'', PDict [(''name'', PStr ''nope''), (''params'', PDict [])])]"
  have jobs: "map_of [(''jobs'', PDict ?its)] ''jobs'' = Some (PDict ?its)"
    by simp
  have names: "\<forall>(jid, jc) \<in> set ?its. configured_name jc \<noteq> None"
    by (simp add: configured_name_def)
  have absent: "\<exists>(jid, jc) \<in> set ?its. \<exists>n. configured_name jc = Some n \<and> example_library n = None"
    by (simp add: configured_name_def example_library_def)
  have bound: "\<forall>(jid, jc) \<in> set ?its. \<forall>n. configured_name jc = Some n
                 \<longrightarrow> example_library n \<noteq> Some (Data PNone)"
    by (simp add: configured_name_def example_library_def)
  from from_config_unknown_job [OF jobs names absent] bound
  show ?thesis
    by (simp only: example_config_def)
qed

end
